theory Spec2Isabelle
  imports Complex_Main "HOL-Library.Multiset" "HOL-Library.AList"
begin

section \<open>Data model (backend/models/Quiz.js)\<close>

text \<open>
  Values that arrive in a request body or a socket payload are JSON values. The
  handlers compare them with \<open>===\<close>, convert them with \<open>Number(...)\<close> and use them as
  \<open>Map\<close> keys, so the kinds are kept apart. The model has the primitive kinds: \<open>null\<close>,
  booleans, numbers and strings; a field that the payload does not have (\<open>undefined\<close>)
  is \<open>None\<close> of an option type. Arrays and objects as values of such a field are not
  modelled. Numbers are exact: a number is the real it denotes, and the rounding of a
  literal to the nearest double is not modelled.
\<close>

datatype jsval = JsNull | JsBool bool | JNum real | JStr string

text \<open>A JavaScript number that results from a conversion can also be \<open>NaN\<close> or
  infinite.\<close>

datatype number = NaN | Finite real | PosInfinity | NegInfinity

text \<open>
  \<open>Number(v)\<close> for a primitive value. For a string it is the conversion
  \<open>StringToNumber\<close> of ECMAScript: white space at both ends is dropped; the empty
  string is 0; a literal with prefix \<open>0x\<close>, \<open>0o\<close> or \<open>0b\<close> is read in that base; anything
  else must be an optionally signed decimal literal (\<open>Infinity\<close>, or digits with an
  optional fraction and an optional exponent); every other string is \<open>NaN\<close>.
  Characters are the code units below 256, among which the white space is
  TAB, LF, VT, FF, CR, the space and the no-break space.
\<close>

definition is_space :: "char \<Rightarrow> bool" where
  "is_space c = ((of_char c :: nat) \<in> {9, 10, 11, 12, 13, 32, 160})"

definition trim :: "string \<Rightarrow> string" where
  "trim s = rev (dropWhile is_space (rev (dropWhile is_space s)))"

text \<open>The value of a digit or letter as a digit (\<open>0\<close>-\<open>9\<close>, then \<open>a\<close>-\<open>z\<close> in either case
  from 10 on); 36 for any other character.\<close>

definition digit_val :: "char \<Rightarrow> nat" where
  "digit_val c =
     (let n = (of_char c :: nat) in
      if 48 \<le> n \<and> n \<le> 57 then n - 48
      else if 97 \<le> n \<and> n \<le> 122 then n - 87
      else if 65 \<le> n \<and> n \<le> 90 then n - 55
      else 36)"

definition is_digit :: "nat \<Rightarrow> char \<Rightarrow> bool" where
  "is_digit base c = (digit_val c < base)"

definition digits_value :: "nat \<Rightarrow> string \<Rightarrow> nat" where
  "digits_value base s = foldl (\<lambda>acc c. base * acc + digit_val c) 0 s"

definition negate :: "number \<Rightarrow> number" where
  "negate n = (case n of NaN \<Rightarrow> NaN | Finite r \<Rightarrow> Finite (- r)
               | PosInfinity \<Rightarrow> NegInfinity | NegInfinity \<Rightarrow> PosInfinity)"

text \<open>What follows the mantissa: nothing, or \<open>e\<close> or \<open>E\<close>, an optional sign and digits.
  The result is the power of ten to multiply with.\<close>

definition exponent_part :: "string \<Rightarrow> real option" where
  "exponent_part s =
     (case s of
        [] \<Rightarrow> Some 1
      | c # r \<Rightarrow>
          if c = CHR ''e'' \<or> c = CHR ''E''
          then (let neg = (r \<noteq> [] \<and> hd r = CHR ''-'');
                    ds = (if r \<noteq> [] \<and> (hd r = CHR ''-'' \<or> hd r = CHR ''+'') then tl r else r)
                in if ds \<noteq> [] \<and> list_all (is_digit 10) ds
                   then Some (if neg then 1 / 10 ^ digits_value 10 ds else 10 ^ digits_value 10 ds)
                   else None)
          else None)"

definition unsigned_decimal :: "string \<Rightarrow> number" where
  "unsigned_decimal s =
     (if s = ''Infinity'' then PosInfinity
      else let ip = takeWhile (is_digit 10) s;
               r1 = dropWhile (is_digit 10) s;
               dot = (r1 \<noteq> [] \<and> hd r1 = CHR ''.'');
               fp = (if dot then takeWhile (is_digit 10) (tl r1) else []);
               r2 = (if dot then dropWhile (is_digit 10) (tl r1) else r1)
           in if ip = [] \<and> fp = [] then NaN
              else (case exponent_part r2 of
                      None \<Rightarrow> NaN
                    | Some p \<Rightarrow>
                        Finite ((real (digits_value 10 ip)
                                 + real (digits_value 10 fp) / 10 ^ length fp) * p)))"

definition radix_literal :: "nat \<Rightarrow> string \<Rightarrow> number" where
  "radix_literal base ds =
     (if ds \<noteq> [] \<and> list_all (is_digit base) ds then Finite (real (digits_value base ds)) else NaN)"

definition non_decimal :: "string \<Rightarrow> number option" where
  "non_decimal t =
     (case t of
        z # c # ds \<Rightarrow>
          if z = CHR ''0'' \<and> (c = CHR ''x'' \<or> c = CHR ''X'') then Some (radix_literal 16 ds)
          else if z = CHR ''0'' \<and> (c = CHR ''o'' \<or> c = CHR ''O'') then Some (radix_literal 8 ds)
          else if z = CHR ''0'' \<and> (c = CHR ''b'' \<or> c = CHR ''B'') then Some (radix_literal 2 ds)
          else None
      | _ \<Rightarrow> None)"

definition StringToNumber :: "string \<Rightarrow> number" where
  "StringToNumber s =
     (let t = trim s in
      if t = [] then Finite 0
      else (case non_decimal t of
              Some n \<Rightarrow> n
            | None \<Rightarrow>
                if hd t = CHR ''-'' then negate (unsigned_decimal (tl t))
                else if hd t = CHR ''+'' then unsigned_decimal (tl t)
                else unsigned_decimal t))"

fun js_Number :: "jsval \<Rightarrow> number" where
  "js_Number JsNull = Finite 0"
| "js_Number (JsBool b) = Finite (if b then 1 else 0)"
| "js_Number (JNum r) = Finite r"
| "js_Number (JStr s) = StringToNumber s"

text \<open>
  What Mongoose stores in a path of schema type \<open>Number\<close> for a value that is assigned
  to it (its \<open>castNumber\<close>): \<open>null\<close>, a missing value and the empty string are stored as
  no number; a number is stored as it is; a boolean or a string is converted with
  \<open>Number(...)\<close>, and the cast fails when that is \<open>NaN\<close>. A failed cast makes the
  validation of the document fail, so that \<open>save()\<close> throws.
\<close>

datatype cast = CastError | Cast "number option"

fun castNumber :: "jsval option \<Rightarrow> cast" where
  "castNumber None = Cast None"
| "castNumber (Some JsNull) = Cast None"
| "castNumber (Some (JNum r)) = Cast (Some (Finite r))"
| "castNumber (Some (JsBool b)) = Cast (Some (js_Number (JsBool b)))"
| "castNumber (Some (JStr s)) =
     (if s = [] then Cast None
      else if js_Number (JStr s) = NaN then CastError
      else Cast (Some (js_Number (JStr s))))"

text \<open>The documents. Identifiers (\<open>_id\<close>, \<open>user\<close>) are opaque names; instants are
  milliseconds (\<open>Date.now()\<close>). The index of the correct option and the point value of
  a question are integers.\<close>

record question =
  q_id :: string
  q_text :: string
  q_options :: "string list"
  q_correctIndex :: int
  q_category :: string
  q_difficulty :: string
  q_points :: int

record answer =
  a_questionId :: string
  a_selectedIndex :: "number option"
  a_correct :: bool
  a_timeTaken :: int
  a_points :: int
  a_submittedAt :: int
  a_serverTimeReceived :: int

record participant =
  p_id :: string
  p_user :: string
  p_score :: int
  p_totalQuestions :: int
  p_correctAnswers :: int
  p_timeSpent :: int
  p_answers :: "answer list"
  p_endTime :: "int option"
  p_isCompleted :: bool
  p_rank :: "int option"
  p_paid :: bool

record quiz =
  quiz_id :: string
  quiz_title :: string
  quiz_date :: int
  quiz_status :: string
  quiz_startTime :: "int option"
  quiz_endTime :: "int option"
  quiz_questions :: "question list"
  quiz_participants :: "participant list"
  quiz_isLive :: bool
  quiz_isCompleted :: bool
  quiz_published :: bool
  quiz_totalQuestions :: int
  quiz_timePerQuestion :: int
  quiz_maxParticipants :: int
  quiz_currentParticipants :: int
  quiz_shuffleQuestions :: bool
  quiz_currentQuestionIndex :: int
  quiz_questionStartTime :: "int option"

text \<open>
  The durable collection. \<open>Quiz.findById\<close> is a lookup; \<open>quiz.save()\<close> writes the
  document that the handler holds back under its id. Mongoose sends only the changed
  paths and may guard a changed array path with the version key of the document;
  here the document is written as a whole and the write succeeds. What is proved
  about a save that follows another handler's write therefore concerns only the
  fields that the saving handler has set.
\<close>

type_synonym store = "string \<Rightarrow> quiz option"

definition save :: "store \<Rightarrow> quiz \<Rightarrow> store" where
  "save db qz = db(quiz_id qz \<mapsto> qz)"

section \<open>Answer intake over HTTP (backend/controllers/quizController.js)\<close>

text \<open>The body of the request, with the id of the authenticated user. \<open>selectedIndex\<close>
  and \<open>timeTaken\<close> are whatever the body holds.\<close>

record submit_request =
  r_quizId :: string
  r_userId :: string
  r_questionId :: string
  r_selectedIndex :: "jsval option"
  r_timeTaken :: "jsval option"

text \<open>The answers of the handler. \<open>AnswerAccepted\<close> carries \<open>correct\<close>, \<open>points\<close> and
  \<open>totalScore\<close>; \<open>FailedToSubmit\<close> is the answer 500 of the \<open>catch\<close> block.\<close>

datatype http_response =
    QuizNotFound
  | UserNotRegistered
  | QuestionAlreadyAnswered
  | QuestionNotFound
  | TimeLimitExceeded
  | SubmittedTooQuickly
  | AnswerAccepted bool int int
  | FailedToSubmit

text \<open>\<open>Math.round\<close>: the nearest integer, halves rounded up.\<close>

definition Math_round :: "real \<Rightarrow> int" where
  "Math_round x = \<lfloor>x + 1 / 2\<rfloor>"

text \<open>The participant found by \<open>participants.find\<close> is mutated in place: the first
  element that satisfies the predicate is replaced.\<close>

fun update_first :: "('a \<Rightarrow> bool) \<Rightarrow> ('a \<Rightarrow> 'a) \<Rightarrow> 'a list \<Rightarrow> 'a list" where
  "update_first P f [] = []"
| "update_first P f (x # xs) = (if P x then f x # xs else x # update_first P f xs)"

text \<open>\<open>(now - (quiz.questionStartTime?.getTime() || 0)) / 1000\<close>.\<close>

definition elapsed_seconds :: "quiz \<Rightarrow> int \<Rightarrow> real" where
  "elapsed_seconds qz now =
     of_int (now - (case quiz_questionStartTime qz of None \<Rightarrow> 0 | Some t \<Rightarrow> t)) / 1000"

text \<open>\<open>participant.answers.push({...})\<close> and the four updates of the totals. The
  subdocument holds \<open>selectedIndex\<close> as the schema casts it.\<close>

definition record_answer ::
  "submit_request \<Rightarrow> number option \<Rightarrow> bool \<Rightarrow> int \<Rightarrow> int \<Rightarrow> int \<Rightarrow> participant \<Rightarrow> participant" where
  "record_answer req selectedIndex isCorrect points taken now p =
     p\<lparr> p_answers := p_answers p @
            [\<lparr> a_questionId = r_questionId req, a_selectedIndex = selectedIndex,
               a_correct = isCorrect, a_timeTaken = taken, a_points = points,
               a_submittedAt = now, a_serverTimeReceived = now \<rparr>],
        p_score := p_score p + points,
        p_totalQuestions := p_totalQuestions p + 1,
        p_correctAnswers := (if isCorrect then p_correctAnswers p + 1 else p_correctAnswers p),
        p_timeSpent := p_timeSpent p + taken \<rparr>"

text \<open>
  \<open>submitAnswer\<close> loads the quiz (\<open>await Quiz.findById\<close>), validates and scores on the
  loaded document, and writes the document back (\<open>await quiz.save()\<close>).
  \<open>submitAnswer_on\<close> is the part between the two store operations: it returns the
  response and, when the answer is accepted, the changed document to be saved. When
  \<open>selectedIndex\<close> cannot be cast to a number the document does not validate:
  \<open>save()\<close> throws, nothing is written and the answer is 500.
\<close>

definition submitAnswer_on :: "quiz \<Rightarrow> int \<Rightarrow> submit_request \<Rightarrow> http_response \<times> quiz option" where
  "submitAnswer_on qz now req =
     (case find (\<lambda>p. p_user p = r_userId req) (quiz_participants qz) of
        None \<Rightarrow> (UserNotRegistered, None)
      | Some participant \<Rightarrow>
         (case find (\<lambda>a. a_questionId a = r_questionId req) (p_answers participant) of
            Some existingAnswer \<Rightarrow> (QuestionAlreadyAnswered, None)
          | None \<Rightarrow>
             (case find (\<lambda>q. q_id q = r_questionId req) (quiz_questions qz) of
                None \<Rightarrow> (QuestionNotFound, None)
              | Some question \<Rightarrow>
                 let elapsed = elapsed_seconds qz now in
                 if elapsed > of_int (quiz_timePerQuestion qz) + 1 then (TimeLimitExceeded, None)
                 else if elapsed < 1 / 2 then (SubmittedTooQuickly, None)
                 else
                   let isCorrect = (r_selectedIndex req = Some (JNum (of_int (q_correctIndex question))));
                       points = (if isCorrect then q_points question else 0)
                   in (case castNumber (r_selectedIndex req) of
                         CastError \<Rightarrow> (FailedToSubmit, None)
                       | Cast selectedIndex \<Rightarrow>
                           let participant' = record_answer req selectedIndex isCorrect points
                                                (Math_round elapsed) now participant
                           in (AnswerAccepted isCorrect points (p_score participant'),
                               Some (qz\<lparr> quiz_participants :=
                                           update_first (\<lambda>p. p_user p = r_userId req) (\<lambda>_. participant')
                                             (quiz_participants qz) \<rparr>))))))"

definition submitAnswer :: "store \<Rightarrow> int \<Rightarrow> submit_request \<Rightarrow> http_response \<times> store" where
  "submitAnswer db now req =
     (case db (r_quizId req) of
        None \<Rightarrow> (QuizNotFound, db)
      | Some qz \<Rightarrow>
         (case submitAnswer_on qz now req of
            (response, None) \<Rightarrow> (response, db)
          | (response, Some qz') \<Rightarrow> (response, save db qz')))"

subsection \<open>Entering a quiz\<close>

text \<open>
  \<open>enterQuiz\<close> adds the caller to the participants of a quiz. The subdocument it pushes
  names the user and \<open>paid: true\<close>; the schema fills in the rest: score and totals 0, no
  answers, not completed. \<open>userFound\<close> is whether \<open>User.findById\<close> found the caller,
  \<open>newId\<close> the \<open>_id\<close> that the new subdocument gets. (The payment record that the handler
  looks up, and creates when there is none, is in other collections.)
\<close>

record enter_request =
  e_quizId :: string
  e_userId :: string

datatype enter_response =
    UserNotFound
  | NoSuchQuiz
  | NotAvailableYet
  | Reconnected string
  | AlreadyParticipated
  | QuizFull
  | Entered string

definition new_participant :: "string \<Rightarrow> string \<Rightarrow> participant" where
  "new_participant pid userId =
     \<lparr> p_id = pid, p_user = userId, p_score = 0, p_totalQuestions = 0,
       p_correctAnswers = 0, p_timeSpent = 0, p_answers = [], p_endTime = None,
       p_isCompleted = False, p_rank = None, p_paid = True \<rparr>"

definition enterQuiz :: "store \<Rightarrow> bool \<Rightarrow> string \<Rightarrow> enter_request \<Rightarrow> enter_response \<times> store" where
  "enterQuiz db userFound newId req =
     (if \<not> userFound then (UserNotFound, db)
      else (case db (e_quizId req) of
        None \<Rightarrow> (NoSuchQuiz, db)
      | Some quiz \<Rightarrow>
          if \<not> quiz_isLive quiz \<and> \<not> quiz_published quiz then (NotAvailableYet, db)
          else (case find (\<lambda>p. p_user p = e_userId req) (quiz_participants quiz) of
             Some existingParticipant \<Rightarrow>
               if quiz_isLive quiz \<and> p_paid existingParticipant
               then (Reconnected (p_id existingParticipant), db)
               else (AlreadyParticipated, db)
           | None \<Rightarrow>
               if quiz_currentParticipants quiz \<ge> quiz_maxParticipants quiz then (QuizFull, db)
               else (Entered newId,
                     save db (quiz\<lparr> quiz_participants :=
                                       quiz_participants quiz @ [new_participant newId (e_userId req)],
                                     quiz_currentParticipants := quiz_currentParticipants quiz + 1 \<rparr>)))))"

text \<open>Requests served one after the other, each with the instant at which it is
  handled.\<close>

datatype request = Enter bool string enter_request | Answer int submit_request

fun serve :: "store \<Rightarrow> request list \<Rightarrow> store" where
  "serve db [] = db"
| "serve db (Enter userFound newId req # rest) = serve (snd (enterQuiz db userFound newId req)) rest"
| "serve db (Answer now req # rest) = serve (snd (submitAnswer db now req)) rest"

section \<open>Answer intake over the socket (backend/utils/socketQuizOrchestrator.js)\<close>

text \<open>Event payloads are JavaScript object literals: lists of named fields.\<close>

datatype json =
    JNumber real
  | JString string
  | JBool bool
  | JNull
  | JArray "json list"
  | JObject "(string \<times> json) list"

fun json_of :: "jsval \<Rightarrow> json" where
  "json_of JsNull = JNull"
| "json_of (JsBool b) = JBool b"
| "json_of (JNum n) = JNumber n"
| "json_of (JStr s) = JString s"

text \<open>Where an event goes: to the socket of the handler (\<open>socket.emit\<close>), to a room
  (\<open>io.to(room).emit\<close>), to a room without that socket (\<open>socket.to(room).emit\<close>), or to
  another socket by its id.\<close>

datatype target = ToSocket | ToRoom string | ToOthers string | ToSocketId string

datatype effect =
    Emit target string json
  | DbSetParticipants string "json list"

text \<open>A JavaScript \<open>Map\<close> keeps insertion order: an association list, where
  \<open>set\<close> replaces the value of a present key in place and appends a new key.\<close>

definition map_has :: "'k \<Rightarrow> ('k \<times> 'v) list \<Rightarrow> bool" where
  "map_has k m = (k \<in> fst ` set m)"

definition map_set :: "'k \<Rightarrow> 'v \<Rightarrow> ('k \<times> 'v) list \<Rightarrow> ('k \<times> 'v) list" where
  "map_set k v m = AList.update k v m"

record orch_answer =
  oa_selectedIndex :: jsval
  oa_isCorrect :: bool
  oa_points :: int
  oa_timeTaken :: int

record orch_participant =
  op_socketId :: "string option"
  op_answers :: "(jsval \<times> orch_answer) list"
  op_score :: int
  op_correctAnswers :: int
  op_timeSpent :: int
  op_isCompleted :: bool

text \<open>\<open>qstate.quizDoc\<close> is a JSON clone of the quiz document; the handler reads its
  questions and appends plain objects to its participants' answers.\<close>

record doc_answer =
  da_questionId :: "string option"
  da_questionIndex :: "jsval option"
  da_selectedIndex :: jsval
  da_correct :: bool
  da_points :: int
  da_timeTaken :: int

record doc_participant =
  dp_user :: string
  dp_score :: int
  dp_answers :: "doc_answer list"
  dp_isCompleted :: bool
  dp_totalQuestions :: int
  dp_correctAnswers :: int
  dp_timeSpent :: int

record qstate =
  qs_docId :: string
  qs_title :: string
  qs_questions :: "question list"
  qs_docParticipants :: "doc_participant list"
  qs_currentIndex :: int
  qs_running :: bool
  qs_questionDurationSec :: int
  qs_participants :: "(string \<times> orch_participant) list"
  qs_questionStartAt :: "int option"
  qs_remaining :: int
  qs_endHandle :: "int option"
  qs_gapTimer :: "int option"
  qs_persistCount :: nat

type_synonym orchestrator = "(string \<times> qstate) list"

text \<open>The payload of \<open>submit-answer\<close>. The ids are strings (the handler applies
  \<open>String(...)\<close> to them); the two indices are whatever the client sent.\<close>

record answer_payload =
  ap_quizId :: string
  ap_userId :: string
  ap_questionIndex :: "jsval option"
  ap_selectedIndex :: "jsval option"
  ap_timestampClient :: "jsval option"

text \<open>\<open>xs[i]\<close> for a number \<open>i\<close>: \<open>undefined\<close> outside the array.\<close>

definition js_index :: "'a list \<Rightarrow> int \<Rightarrow> 'a option" where
  "js_index xs i = (if 0 \<le> i \<and> i < int (length xs) then Some (xs ! nat i) else None)"

definition answer_error :: "string \<Rightarrow> effect" where
  "answer_error msg = Emit ToSocket ''answer-error'' (JObject [(''message'', JString msg)])"

definition doc_participant_json :: "doc_participant \<Rightarrow> json" where
  "doc_participant_json pd = JObject
     [(''user'', JString (dp_user pd)), (''score'', JNumber (of_int (dp_score pd))),
      (''answers'', JArray (map (\<lambda>a. JObject
           [(''questionId'', (case da_questionId a of None \<Rightarrow> JNull | Some i \<Rightarrow> JString i)),
            (''questionIndex'', (case da_questionIndex a of None \<Rightarrow> JNull | Some i \<Rightarrow> json_of i)),
            (''selectedIndex'', json_of (da_selectedIndex a)),
            (''correct'', JBool (da_correct a)), (''points'', JNumber (of_int (da_points a))),
            (''timeTaken'', JNumber (of_int (da_timeTaken a)))]) (dp_answers pd))),
      (''isCompleted'', JBool (dp_isCompleted pd)),
      (''totalQuestions'', JNumber (of_int (dp_totalQuestions pd))),
      (''correctAnswers'', JNumber (of_int (dp_correctAnswers pd))),
      (''timeSpent'', JNumber (of_int (dp_timeSpent pd)))]"

text \<open>The mirror entry \<open>pd\<close> in \<open>quizDoc.participants\<close>: found by user, or created.\<close>

definition ensure_pd :: "string \<Rightarrow> doc_participant list \<Rightarrow> doc_participant list" where
  "ensure_pd userId ps =
     (case find (\<lambda>x. dp_user x = userId) ps of
        Some pd \<Rightarrow> ps
      | None \<Rightarrow> ps @ [\<lparr> dp_user = userId, dp_score = 0, dp_answers = [], dp_isCompleted = False,
                        dp_totalQuestions = 0, dp_correctAnswers = 0, dp_timeSpent = 0 \<rparr>])"

definition mirror_answer ::
  "string \<Rightarrow> doc_answer \<Rightarrow> orch_participant \<Rightarrow> doc_participant list \<Rightarrow> doc_participant list" where
  "mirror_answer userId a participant ps =
     update_first (\<lambda>x. dp_user x = userId)
       (\<lambda>pd. pd\<lparr> dp_answers := dp_answers pd @ [a],
                 dp_score := op_score participant,
                 dp_totalQuestions := dp_totalQuestions pd + 1,
                 dp_correctAnswers := op_correctAnswers participant,
                 dp_timeSpent := op_timeSpent participant \<rparr>)
       (ensure_pd userId ps)"

definition SAVE_INTERVAL :: nat where
  "SAVE_INTERVAL = 5"

text \<open>\<open>(now - questionStart) / 1000\<close>, and \<open>Math.max(0, Math.floor(...))\<close> of it.\<close>

definition orch_elapsed :: "qstate \<Rightarrow> int \<Rightarrow> real" where
  "orch_elapsed qs now =
     of_int (now - (case qs_questionStartAt qs of None \<Rightarrow> 0 | Some t \<Rightarrow> t)) / 1000"

definition orch_timeTaken :: "qstate \<Rightarrow> int \<Rightarrow> int" where
  "orch_timeTaken qs now = max 0 \<lfloor>orch_elapsed qs now\<rfloor>"

text \<open>The block \<open>// Save to participant\<close>: the entry goes into the \<open>answers\<close> map
  under the question index as the payload gave it, and the totals are increased.\<close>

definition save_to_participant ::
  "jsval \<Rightarrow> jsval \<Rightarrow> bool \<Rightarrow> int \<Rightarrow> int \<Rightarrow> orch_participant \<Rightarrow> orch_participant" where
  "save_to_participant questionIndex selectedIndex isCorrect points timeTaken participant =
     participant
       \<lparr> op_answers := map_set questionIndex
            \<lparr> oa_selectedIndex = selectedIndex, oa_isCorrect = isCorrect,
              oa_points = points, oa_timeTaken = timeTaken \<rparr> (op_answers participant),
         op_score := op_score participant + points,
         op_timeSpent := op_timeSpent participant + timeTaken,
         op_correctAnswers := (if isCorrect then op_correctAnswers participant + 1
                               else op_correctAnswers participant) \<rparr>"

definition submit_answer_running ::
  "qstate \<Rightarrow> int \<Rightarrow> string \<Rightarrow> string \<Rightarrow> jsval \<Rightarrow> jsval \<Rightarrow> effect list \<times> qstate" where
  "submit_answer_running qs now quizId userId questionIndex selectedIndex =
     (if Finite (of_int (qs_currentIndex qs)) \<noteq> js_Number questionIndex
      then ([answer_error ''Answer for wrong question or late''], qs)
      else (case map_of (qs_participants qs) userId of
        None \<Rightarrow> ([answer_error ''User not registered for quiz''], qs)
      | Some participant \<Rightarrow>
         if map_has questionIndex (op_answers participant)
         then ([answer_error ''Question already answered''], qs)
         else
           let timeTaken = orch_timeTaken qs now in
           if timeTaken > qs_questionDurationSec qs
           then ([answer_error ''Too late to answer''], qs)
           else (case js_index (qs_questions qs) (qs_currentIndex qs) of
             None \<Rightarrow> ([answer_error ''Failed to process answer''], qs)
           | Some question \<Rightarrow>
              let isCorrect = (js_Number selectedIndex = Finite (of_int (q_correctIndex question)));
                  points = (if isCorrect
                            then (if q_points question = 0 then 1 else q_points question)
                            else 0);
                  participant' = save_to_participant questionIndex selectedIndex isCorrect points
                                   timeTaken participant;
                  docParticipants' = mirror_answer userId
                     \<lparr> da_questionId = None, da_questionIndex = Some questionIndex, da_selectedIndex = selectedIndex,
                       da_correct = isCorrect, da_points = points, da_timeTaken = timeTaken \<rparr>
                     participant' (qs_docParticipants qs);
                  count = qs_persistCount qs + 1;
                  emits = [Emit ToSocket ''answer-result'' (JObject
                             [(''questionIndex'', json_of questionIndex), (''correct'', JBool isCorrect),
                              (''points'', JNumber (of_int points)),
                              (''totalScore'', JNumber (of_int (op_score participant')))]),
                           Emit (ToRoom quizId) ''participant-answered'' (JObject
                             [(''userId'', JString userId), (''questionIndex'', json_of questionIndex)])];
                  qs' = qs\<lparr> qs_participants := map_set userId participant' (qs_participants qs),
                            qs_docParticipants := docParticipants' \<rparr>
              in if count \<ge> SAVE_INTERVAL
                 then (emits @ [DbSetParticipants (qs_docId qs) (map doc_participant_json docParticipants')],
                       qs'\<lparr> qs_persistCount := 0 \<rparr>)
                 else (emits, qs'\<lparr> qs_persistCount := count \<rparr>))))"

definition submit_answer :: "orchestrator \<Rightarrow> int \<Rightarrow> answer_payload \<Rightarrow> effect list \<times> orchestrator" where
  "submit_answer orch now payload =
     (case (ap_questionIndex payload, ap_selectedIndex payload) of
        (Some questionIndex, Some selectedIndex) \<Rightarrow>
          if ap_quizId payload = [] \<or> ap_userId payload = []
          then ([answer_error ''Invalid payload''], orch)
          else (case map_of orch (ap_quizId payload) of
                  None \<Rightarrow> ([answer_error ''Quiz not running''], orch)
                | Some qs \<Rightarrow>
                    if \<not> qs_running qs then ([answer_error ''Quiz not running''], orch)
                    else let (effects, qs') = submit_answer_running qs now (ap_quizId payload)
                                                (ap_userId payload) questionIndex selectedIndex
                         in (effects, map_set (ap_quizId payload) qs' orch))
      | _ \<Rightarrow> ([answer_error ''Invalid payload''], orch))"

subsection \<open>Joining and leaving\<close>

text \<open>
  \<open>join-quiz\<close>. When the orchestrator holds no state for the quiz, a minimal state is
  created that is not running; it has no quiz document, so the fields that come from
  the document are empty here, and they are not read while the quiz is not running.
  The entry of the user in the participants is set anew: no answers, score 0.
\<close>

record join_payload =
  jq_quizId :: string
  jq_userId :: string

definition minimal_qstate :: qstate where
  "minimal_qstate =
     \<lparr> qs_docId = [], qs_title = [], qs_questions = [], qs_docParticipants = [],
       qs_currentIndex = -1, qs_running = False, qs_questionDurationSec = 0,
       qs_participants = [], qs_questionStartAt = None, qs_remaining = 0,
       qs_endHandle = None, qs_gapTimer = None, qs_persistCount = 0 \<rparr>"

definition fresh_participant :: "string \<Rightarrow> orch_participant" where
  "fresh_participant socketId =
     \<lparr> op_socketId = Some socketId, op_answers = [], op_score = 0,
       op_correctAnswers = 0, op_timeSpent = 0, op_isCompleted = False \<rparr>"

definition join_quiz :: "orchestrator \<Rightarrow> string \<Rightarrow> join_payload \<Rightarrow> effect list \<times> orchestrator" where
  "join_quiz orch socketId payload =
     (if jq_quizId payload = [] \<or> jq_userId payload = []
      then ([Emit ToSocket ''join-error'' (JObject [(''message'', JString ''Missing quizId or userId'')])],
            orch)
      else let qstate = (case map_of orch (jq_quizId payload) of
                           None \<Rightarrow> minimal_qstate
                         | Some qs \<Rightarrow> qs)
           in ([Emit ToSocket ''joined'' (JObject
                  [(''quizId'', JString (jq_quizId payload)), (''message'', JString ''joined'')])],
               map_set (jq_quizId payload)
                 (qstate\<lparr> qs_participants :=
                     map_set (jq_userId payload) (fresh_participant socketId) (qs_participants qstate) \<rparr>)
                 orch))"

text \<open>\<open>leave-quiz\<close> removes the user from the quiz; \<open>disconnect\<close> removes every
  participant that the socket had registered, in all quizzes.\<close>

definition leave_quiz :: "orchestrator \<Rightarrow> join_payload \<Rightarrow> orchestrator" where
  "leave_quiz orch payload =
     (if jq_quizId payload = [] \<or> jq_userId payload = [] then orch
      else (case map_of orch (jq_quizId payload) of
              None \<Rightarrow> orch
            | Some qs \<Rightarrow>
                map_set (jq_quizId payload)
                  (qs\<lparr> qs_participants := AList.delete (jq_userId payload) (qs_participants qs) \<rparr>) orch))"

definition socket_disconnect :: "orchestrator \<Rightarrow> string \<Rightarrow> orchestrator" where
  "socket_disconnect orch sid =
     map (\<lambda>e. (fst e, (snd e)\<lparr> qs_participants :=
                  filter (\<lambda>u. op_socketId (snd u) \<noteq> Some sid) (qs_participants (snd e)) \<rparr>)) orch"

section \<open>Shuffling (shuffleQuestions in backend/utils/quizScheduler.js)\<close>

text \<open>
  \<open>Math.random()\<close> is an input: the stream \<open>rnd\<close> of the values it returns, read at a
  running position. Its contract is \<open>0 \<le> u < 1\<close>; arithmetic on the draws is exact.
\<close>

definition swap :: "nat \<Rightarrow> nat \<Rightarrow> 'a list \<Rightarrow> 'a list" where
  "swap i j xs = (xs[i := xs ! j])[j := xs ! i]"

definition random_index :: "real \<Rightarrow> nat \<Rightarrow> nat" where
  "random_index u i = nat \<lfloor>u * real (i + 1)\<rfloor>"

text \<open>\<open>for (let i = a.length - 1; i > 0; i--) { j = floor(random() * (i + 1)); swap }\<close>,
  entered with \<open>i = length - 1\<close>; the second component is the next stream position.\<close>

fun fisher_yates :: "(nat \<Rightarrow> real) \<Rightarrow> nat \<Rightarrow> nat \<Rightarrow> 'a list \<Rightarrow> 'a list \<times> nat" where
  "fisher_yates rnd k 0 xs = (xs, k)"
| "fisher_yates rnd k (Suc i) xs =
     fisher_yates rnd (Suc k) i (swap (Suc i) (random_index (rnd k) (Suc i)) xs)"

text \<open>\<open>findIndex\<close>: the first position that satisfies the predicate, or \<open>-1\<close>.\<close>

fun findIndex :: "('a \<Rightarrow> bool) \<Rightarrow> 'a list \<Rightarrow> int" where
  "findIndex P [] = -1"
| "findIndex P (x # xs) =
     (if P x then 0 else (let r = findIndex P xs in if r < 0 then -1 else r + 1))"

definition shuffle_options :: "(nat \<Rightarrow> real) \<Rightarrow> nat \<Rightarrow> question \<Rightarrow> question \<times> nat" where
  "shuffle_options rnd k q =
     (if q_options q = [] then (q, k)
      else let originalCorrectAnswer = js_index (q_options q) (q_correctIndex q);
               (shuffledOptions, k') = fisher_yates rnd k (length (q_options q) - 1) (q_options q)
           in (q\<lparr> q_options := shuffledOptions,
                    q_correctIndex := findIndex (\<lambda>opt. Some opt = originalCorrectAnswer) shuffledOptions \<rparr>,
               k'))"

fun shuffle_each :: "(nat \<Rightarrow> real) \<Rightarrow> nat \<Rightarrow> question list \<Rightarrow> question list \<times> nat" where
  "shuffle_each rnd k [] = ([], k)"
| "shuffle_each rnd k (q # qs) =
     (let (q', k') = shuffle_options rnd k q;
          (qs', k'') = shuffle_each rnd k' qs
      in (q' # qs', k''))"

definition shuffleQuestions :: "(nat \<Rightarrow> real) \<Rightarrow> question list \<Rightarrow> question list" where
  "shuffleQuestions rnd questions =
     (if questions = [] then questions
      else let (shuffled, k) = fisher_yates rnd 0 (length questions - 1) questions
           in fst (shuffle_each rnd k shuffled))"

section \<open>Ranking (finalizers of both drivers)\<close>

text \<open>
  \<open>Array.prototype.sort\<close> with a comparator is stable. It is modelled by a stable
  insertion sort: an element goes in front of the first element it must precede
  (comparator result \<open>\<le> 0\<close>), and the elements are inserted from the last to the
  first, so that equal elements keep the order of the input.
\<close>

fun insort_cmp :: "('a \<Rightarrow> 'a \<Rightarrow> int) \<Rightarrow> 'a \<Rightarrow> 'a list \<Rightarrow> 'a list" where
  "insort_cmp cmp x [] = [x]"
| "insort_cmp cmp x (y # ys) = (if cmp x y \<le> 0 then x # y # ys else y # insort_cmp cmp x ys)"

definition js_sort :: "('a \<Rightarrow> 'a \<Rightarrow> int) \<Rightarrow> 'a list \<Rightarrow> 'a list" where
  "js_sort cmp xs = foldr (insort_cmp cmp) xs []"

text \<open>\<open>arr.map((x, index) => f x index)\<close>.\<close>

definition map_index :: "('a \<Rightarrow> nat \<Rightarrow> 'b) \<Rightarrow> 'a list \<Rightarrow> 'b list" where
  "map_index f xs = map (\<lambda>(i, x). f x i) (enumerate 0 xs)"

text \<open>The comparator of \<open>endQuizSession\<close>:
  \<open>if (b.score !== a.score) return b.score - a.score; return (a.timeSpent || 0) - (b.timeSpent || 0)\<close>.\<close>

definition by_score_then_time :: "participant \<Rightarrow> participant \<Rightarrow> int" where
  "by_score_then_time a b =
     (if p_score b \<noteq> p_score a then p_score b - p_score a else p_timeSpent a - p_timeSpent b)"

definition winner_json :: "participant \<Rightarrow> nat \<Rightarrow> json" where
  "winner_json p idx = JObject
     [(''rank'', JNumber (of_int (int idx + 1))), (''userId'', JString (p_user p)),
      (''score'', JNumber (of_int (p_score p))), (''correctAnswers'', JNumber (of_int (p_correctAnswers p))),
      (''totalQuestions'', JNumber (of_int (p_totalQuestions p))), (''timeSpent'', JNumber (of_int (p_timeSpent p)))]"

text \<open>One positional update \<open>participants.$\<close> of \<open>endQuizSession\<close>: the first participant
  with the given \<open>_id\<close> is completed and ranked.\<close>

definition set_rank :: "int \<Rightarrow> participant \<Rightarrow> nat \<Rightarrow> quiz \<Rightarrow> quiz" where
  "set_rank now participant index qz =
     qz\<lparr> quiz_participants :=
            update_first (\<lambda>p. p_id p = p_id participant)
              (\<lambda>p. p\<lparr> p_isCompleted := True, p_rank := Some (int index + 1),
                        p_endTime := Some (case p_endTime participant of None \<Rightarrow> now | Some t \<Rightarrow> t) \<rparr>)
              (quiz_participants qz) \<rparr>"

definition sortedParticipants :: "quiz \<Rightarrow> participant list" where
  "sortedParticipants qz = js_sort by_score_then_time (filter p_paid (quiz_participants qz))"

text \<open>
  \<open>endQuizSession\<close> of the scheduler. The session entry is removed from
  \<open>activeQuizSessions\<close>; the quiz is reloaded, its paid participants are ranked, and the
  quiz is marked ended. (Copying the results into each user's history is a write to
  the user collection and is left out.)
\<close>

record session =
  se_questionIndex :: int
  se_questionStartTime :: int

definition endQuizSession ::
  "store \<Rightarrow> (string \<times> session) list \<Rightarrow> int \<Rightarrow> string
     \<Rightarrow> effect list \<times> store \<times> (string \<times> session) list" where
  "endQuizSession db sessions now quizId =
     (let sessions' = AList.delete quizId sessions in
      case db quizId of
        None \<Rightarrow> ([], db, sessions')
      | Some currentQuiz \<Rightarrow>
          let sorted = sortedParticipants currentQuiz;
              ranked = foldl (\<lambda>qz (index, participant). set_rank now participant index qz)
                         currentQuiz (enumerate 0 sorted);
              finalQuiz = ranked\<lparr> quiz_status := ''ended'', quiz_isLive := False,
                                 quiz_isCompleted := True, quiz_endTime := Some now \<rparr>
          in ([Emit (ToRoom (''quiz-'' @ quizId)) ''quiz-ended'' (JObject
                 [(''quizId'', JString quizId), (''endTime'', JNumber (of_int now)),
                  (''totalParticipants'', JNumber (of_int (int (length (quiz_participants finalQuiz))))),
                  (''winners'', JArray (map_index winner_json (take 20 sorted)))])],
              db(quizId \<mapsto> finalQuiz), sessions'))"

text \<open>\<open>finalizeQuiz\<close> of the socket orchestrator ranks the in-memory participants.\<close>

record ranked =
  rk_user :: string
  rk_score :: int
  rk_correctAnswers :: int
  rk_timeSpent :: int
  rk_rank :: "int option"

text \<open>\<open>b.score - a.score || (a.timeSpent || 0) - (b.timeSpent || 0)\<close>.\<close>

definition orch_cmp :: "ranked \<Rightarrow> ranked \<Rightarrow> int" where
  "orch_cmp a b =
     (if rk_score b - rk_score a \<noteq> 0 then rk_score b - rk_score a
      else rk_timeSpent a - rk_timeSpent b)"

definition participantsArr :: "qstate \<Rightarrow> ranked list" where
  "participantsArr qs =
     map_index (\<lambda>p idx. p\<lparr> rk_rank := Some (int idx + 1) \<rparr>)
       (js_sort orch_cmp
          (map (\<lambda>(userId, p). \<lparr> rk_user = userId, rk_score = op_score p,
                                 rk_correctAnswers = op_correctAnswers p,
                                 rk_timeSpent = op_timeSpent p, rk_rank = None \<rparr>)
               (qs_participants qs)))"

definition ranked_json :: "ranked \<Rightarrow> json" where
  "ranked_json p = JObject
     [(''user'', JString (rk_user p)), (''score'', JNumber (of_int (rk_score p))),
      (''correctAnswers'', JNumber (of_int (rk_correctAnswers p))),
      (''timeSpent'', JNumber (of_int (rk_timeSpent p))),
      (''rank'', (case rk_rank p of None \<Rightarrow> JNull | Some r \<Rightarrow> JNumber (of_int r)))]"

definition final_participant_json :: "ranked \<Rightarrow> json" where
  "final_participant_json p = JObject
     [(''user'', JString (rk_user p)), (''score'', JNumber (of_int (rk_score p))),
      (''rank'', (case rk_rank p of None \<Rightarrow> JNull | Some r \<Rightarrow> JNumber (of_int r))),
      (''correctAnswers'', JNumber (of_int (rk_correctAnswers p))),
      (''timeSpent'', JNumber (of_int (rk_timeSpent p))), (''isCompleted'', JBool True)]"

definition finalizeQuiz :: "orchestrator \<Rightarrow> string \<Rightarrow> effect list \<times> orchestrator" where
  "finalizeQuiz orch qid =
     (case map_of orch qid of
        None \<Rightarrow> ([], orch)
      | Some qs \<Rightarrow>
          let arr = participantsArr qs in
          ([DbSetParticipants (qs_docId qs) (map final_participant_json arr),
            Emit (ToRoom qid) ''quiz-ended'' (JObject
              [(''quizId'', JString qid), (''leaderboard'', JArray (map ranked_json (take 50 arr)))])],
           AList.delete qid orch))"

section \<open>Session driver of the scheduler (backend/utils/quizScheduler.js)\<close>

text \<open>
  \<open>startQuizSession\<close> keeps the index of the question in a local variable
  \<open>questionIndex\<close> that its closure \<open>emitNextQuestion\<close> shares with the timer
  callbacks. The driver below is that closure: the variable and the pending timer.
  \<open>AdvanceAfter\<close> is \<open>setTimeout(() => { questionIndex++; emitNextQuestion() }, ms)\<close>,
  \<open>RetryAfter\<close> is \<open>setTimeout(emitNextQuestion, ms)\<close>.
\<close>

datatype timer = AdvanceAfter int | RetryAfter int

record driver =
  dr_quizId :: string
  dr_questionIndex :: int
  dr_timer :: "timer option"

text \<open>What the store does during one run of \<open>emitNextQuestion\<close>: nothing unusual, the
  reload \<open>Quiz.findById\<close> throws, or the write of the index and start instant throws.\<close>

datatype fault = NoFault | ReloadFails | PersistFails

definition question_payload :: "int \<Rightarrow> quiz \<Rightarrow> question \<Rightarrow> int \<Rightarrow> json" where
  "question_payload questionIndex currentQuiz currentQuestion questionStartTime = JObject
     [(''questionIndex'', JNumber (of_int (questionIndex + 1))),
      (''totalQuestions'', JNumber (of_int (quiz_totalQuestions currentQuiz))),
      (''question'', JObject
         [(''_id'', JString (q_id currentQuestion)), (''text'', JString (q_text currentQuestion)),
          (''options'', JArray (map JString (q_options currentQuestion))),
          (''category'', JString (q_category currentQuestion)),
          (''points'', JNumber (of_int (q_points currentQuestion)))]),
      (''timeLeft'', JNumber (of_int (quiz_timePerQuestion currentQuiz * 1000))),
      (''startTime'', JNumber (of_int questionStartTime)),
      (''duration'', JNumber (of_int (quiz_timePerQuestion currentQuiz * 1000)))]"

text \<open>The per-second callback: \<open>ceil(max(0, start + duration - now) / 1000)\<close>.\<close>

definition time_left_tick :: "string \<Rightarrow> int \<Rightarrow> int \<Rightarrow> int \<Rightarrow> int \<Rightarrow> effect list" where
  "time_left_tick quizId questionIndex questionStartTime durationMs now =
     (let remaining = \<lceil>(of_int (max 0 (questionStartTime + durationMs - now)) :: real) / 1000\<rceil>
      in if remaining \<ge> 0
         then [Emit (ToRoom (''quiz-'' @ quizId)) ''time-left'' (JObject
                 [(''questionIndex'', JNumber (of_int (questionIndex + 1))), (''remaining'', JNumber (of_int remaining))])]
         else [])"

definition emitNextQuestion ::
  "fault \<Rightarrow> int \<Rightarrow> store \<Rightarrow> (string \<times> session) list \<Rightarrow> driver
     \<Rightarrow> effect list \<times> store \<times> (string \<times> session) list \<times> driver" where
  "emitNextQuestion flt now db sessions dr =
     (let quizId = dr_quizId dr; questionIndex = dr_questionIndex dr in
      if flt = ReloadFails
      then ([], db, sessions, dr\<lparr> dr_questionIndex := questionIndex + 1, dr_timer := Some (RetryAfter 2000) \<rparr>)
      else (case db quizId of
        None \<Rightarrow> ([], db, AList.delete quizId sessions, dr\<lparr> dr_timer := None \<rparr>)
      | Some currentQuiz \<Rightarrow>
          if \<not> quiz_isLive currentQuiz
          then ([], db, AList.delete quizId sessions, dr\<lparr> dr_timer := None \<rparr>)
          else if questionIndex \<ge> int (length (quiz_questions currentQuiz))
          then (let (effects, db', sessions') = endQuizSession db sessions now quizId
                in (effects, db', sessions', dr\<lparr> dr_timer := None \<rparr>))
          else (case js_index (quiz_questions currentQuiz) questionIndex of
            None \<Rightarrow> ([], db, sessions,
                      dr\<lparr> dr_questionIndex := questionIndex + 1, dr_timer := Some (RetryAfter 1000) \<rparr>)
          | Some currentQuestion \<Rightarrow>
              let questionStartTime = now;
                  durationMs = quiz_timePerQuestion currentQuiz * 1000;
                  db' = (if flt = PersistFails then db
                         else db(quizId \<mapsto> currentQuiz\<lparr> quiz_currentQuestionIndex := questionIndex,
                                                         quiz_questionStartTime := Some questionStartTime \<rparr>))
              in ([Emit (ToRoom (''quiz-'' @ quizId)) ''question''
                     (question_payload questionIndex currentQuiz currentQuestion questionStartTime)],
                  db',
                  map_set quizId \<lparr> se_questionIndex = questionIndex,
                                   se_questionStartTime = questionStartTime \<rparr> sessions,
                  dr\<lparr> dr_timer := Some (AdvanceAfter durationMs) \<rparr>))))"

text \<open>The pending timer fires.\<close>

definition timer_fires ::
  "fault \<Rightarrow> int \<Rightarrow> store \<Rightarrow> (string \<times> session) list \<Rightarrow> driver
     \<Rightarrow> effect list \<times> store \<times> (string \<times> session) list \<times> driver" where
  "timer_fires flt now db sessions dr =
     (case dr_timer dr of
        None \<Rightarrow> ([], db, sessions, dr)
      | Some (AdvanceAfter ms) \<Rightarrow>
          emitNextQuestion flt now db sessions
            (dr\<lparr> dr_questionIndex := dr_questionIndex dr + 1, dr_timer := None \<rparr>)
      | Some (RetryAfter ms) \<Rightarrow>
          emitNextQuestion flt now db sessions (dr\<lparr> dr_timer := None \<rparr>))"

definition startQuizSession ::
  "fault \<Rightarrow> int \<Rightarrow> store \<Rightarrow> (string \<times> session) list \<Rightarrow> string
     \<Rightarrow> effect list \<times> store \<times> (string \<times> session) list \<times> driver option" where
  "startQuizSession flt now db sessions quizId =
     (if map_has quizId sessions then ([], db, sessions, None)
      else (case db quizId of
        None \<Rightarrow> ([], db, sessions, None)
      | Some currentQuiz \<Rightarrow>
          if quiz_questions currentQuiz = [] then ([], db, sessions, None)
          else let questionIndex = (if quiz_currentQuestionIndex currentQuiz \<ge> 0
                                    then quiz_currentQuestionIndex currentQuiz else 0);
                   (effects, db', sessions', dr) =
                      emitNextQuestion flt now db sessions
                        \<lparr> dr_quizId = quizId, dr_questionIndex = questionIndex, dr_timer = None \<rparr>
               in (effects, db', sessions', Some dr)))"


subsection \<open>Going live\<close>

definition go_live :: "int \<Rightarrow> quiz \<Rightarrow> quiz" where
  "go_live now qz = qz\<lparr> quiz_status := ''live'', quiz_isLive := True, quiz_published := True,
                         quiz_startTime := Some now, quiz_currentQuestionIndex := 0 \<rparr>"

definition quiz_started :: "quiz \<Rightarrow> effect" where
  "quiz_started qz = Emit (ToRoom (''quiz-'' @ quiz_id qz)) ''quiz-started'' (JObject
     [(''quizId'', JString (quiz_id qz)),
      (''startTime'', (case quiz_startTime qz of None \<Rightarrow> JNull | Some t \<Rightarrow> JNumber (of_int t))),
      (''totalQuestions'', JNumber (of_int (quiz_totalQuestions qz))),
      (''timePerQuestion'', JNumber (of_int (quiz_timePerQuestion qz)))])"

text \<open>\<open>Quiz.findOneAndUpdate({ _id, isLive: false }, { $set: ... }, { new: true })\<close>: one
  conditional operation of the store.\<close>

definition claim_live :: "store \<Rightarrow> int \<Rightarrow> string \<Rightarrow> quiz option \<times> store" where
  "claim_live db now quizId =
     (case db quizId of
        None \<Rightarrow> (None, db)
      | Some qz \<Rightarrow> if quiz_isLive qz then (None, db)
                   else (Some (go_live now qz), db(quizId \<mapsto> go_live now qz)))"

definition startQuizDirectly ::
  "fault \<Rightarrow> int \<Rightarrow> store \<Rightarrow> (string \<times> session) list \<Rightarrow> quiz
     \<Rightarrow> effect list \<times> store \<times> (string \<times> session) list \<times> driver option" where
  "startQuizDirectly flt now db sessions qz =
     (case claim_live db now (quiz_id qz) of
        (None, db') \<Rightarrow> ([], db', sessions, None)
      | (Some updatedQuiz, db') \<Rightarrow>
          let (effects, db'', sessions', dr) = startQuizSession flt now db' sessions (quiz_id updatedQuiz)
          in (effects @ [quiz_started updatedQuiz], db'', sessions', dr))"

text \<open>
  \<open>manualStartQuiz\<close> reads the quiz, checks and changes the copy it holds, and writes
  the copy back with \<open>quiz.save()\<close>. Both store operations are awaited, so other
  handlers can run between them; the function is given as its two halves and as their
  uninterrupted composition.
\<close>

definition manualStartQuiz_read :: "(nat \<Rightarrow> real) \<Rightarrow> int \<Rightarrow> store \<Rightarrow> string \<Rightarrow> string + quiz" where
  "manualStartQuiz_read rnd now db quizId =
     (case db quizId of
        None \<Rightarrow> Inl ''Quiz not found''
      | Some qz \<Rightarrow>
          if quiz_isLive qz then Inl ''Quiz already live''
          else Inr (go_live now
                 (if quiz_shuffleQuestions qz \<and> quiz_questions qz \<noteq> []
                  then qz\<lparr> quiz_questions := shuffleQuestions rnd (quiz_questions qz) \<rparr>
                  else qz)))"

definition manualStartQuiz_write ::
  "fault \<Rightarrow> int \<Rightarrow> store \<Rightarrow> (string \<times> session) list \<Rightarrow> quiz
     \<Rightarrow> effect list \<times> store \<times> (string \<times> session) list \<times> driver option" where
  "manualStartQuiz_write flt now db sessions qz =
     startQuizSession flt now (save db qz) sessions (quiz_id qz)"

definition manualStartQuiz ::
  "(nat \<Rightarrow> real) \<Rightarrow> fault \<Rightarrow> int \<Rightarrow> store \<Rightarrow> (string \<times> session) list \<Rightarrow> string
     \<Rightarrow> string + effect list \<times> store \<times> (string \<times> session) list \<times> driver option" where
  "manualStartQuiz rnd flt now db sessions quizId =
     (case manualStartQuiz_read rnd now db quizId of
        Inl err \<Rightarrow> Inl err
      | Inr qz \<Rightarrow> Inr (manualStartQuiz_write flt now db sessions qz))"

text \<open>
  The \<open>START\<close> job of the worker (backend/utils/jobs.js) starts a quiz in the same way:
  it reads the quiz, returns when the quiz is live already, and otherwise changes its
  copy, saves it and starts the session. A quiz that is not found makes the job fail.
\<close>

definition startJob ::
  "(nat \<Rightarrow> real) \<Rightarrow> fault \<Rightarrow> int \<Rightarrow> store \<Rightarrow> (string \<times> session) list \<Rightarrow> string
     \<Rightarrow> string + effect list \<times> store \<times> (string \<times> session) list \<times> driver option" where
  "startJob rnd flt now db sessions quizId =
     (case db quizId of
        None \<Rightarrow> Inl (''Quiz '' @ quizId @ '' not found'')
      | Some quiz \<Rightarrow>
          if quiz_isLive quiz then Inr ([], db, sessions, None)
          else let quiz' = go_live now
                     (if quiz_shuffleQuestions quiz \<and> quiz_questions quiz \<noteq> []
                      then quiz\<lparr> quiz_questions := shuffleQuestions rnd (quiz_questions quiz) \<rparr>
                      else quiz);
                   (effects, db', sessions', dr) =
                      startQuizSession flt now (save db quiz') sessions (quiz_id quiz')
               in Inr (effects @ [quiz_started quiz'], db', sessions', dr))"

section \<open>Question cycle of the socket orchestrator (startQuizNow)\<close>

definition questionForClients :: "int \<Rightarrow> question \<Rightarrow> int \<Rightarrow> json" where
  "questionForClients idx question duration = JObject
     [(''questionIndex'', JNumber (of_int idx)), (''text'', JString (q_text question)),
      (''options'', JArray (map JString (q_options question))), (''duration'', JNumber (of_int duration))]"

definition time_left :: "string \<Rightarrow> int \<Rightarrow> int \<Rightarrow> effect" where
  "time_left qid idx remaining = Emit (ToRoom qid) ''time-left'' (JObject
     [(''questionIndex'', JNumber (of_int idx)), (''remaining'', JNumber (of_int remaining))])"

text \<open>
  \<open>advanceTo(idx)\<close>. The two timers it sets are kept in the state: \<open>qs_endHandle\<close> holds
  the index whose end is scheduled, \<open>qs_remaining\<close> is the counter of the per-second
  interval, and \<open>qs_gapTimer\<close> the index that the one-second gap timer will open.
\<close>

definition advanceTo :: "orchestrator \<Rightarrow> string \<Rightarrow> int \<Rightarrow> int \<Rightarrow> effect list \<times> orchestrator" where
  "advanceTo orch qid now idx =
     (case map_of orch qid of
        None \<Rightarrow> ([], orch)
      | Some qs \<Rightarrow>
          if \<not> qs_running qs then ([], orch)
          else let qs1 = qs\<lparr> qs_currentIndex := idx, qs_questionStartAt := Some now \<rparr> in
            (case js_index (qs_questions qs1) idx of
               None \<Rightarrow> finalizeQuiz (map_set qid qs1 orch) qid
             | Some question \<Rightarrow>
                 ([Emit (ToRoom qid) ''question-start''
                     (questionForClients idx question (qs_questionDurationSec qs1)),
                   time_left qid idx (qs_questionDurationSec qs1)],
                  map_set qid (qs1\<lparr> qs_remaining := qs_questionDurationSec qs1,
                                     qs_endHandle := Some idx \<rparr>) orch)))"

text \<open>The per-second callback of the question that is open.\<close>

definition perSecond :: "orchestrator \<Rightarrow> string \<Rightarrow> effect list \<times> orchestrator" where
  "perSecond orch qid =
     (case map_of orch qid of
        None \<Rightarrow> ([], orch)
      | Some qs \<Rightarrow>
          (case qs_endHandle qs of
             None \<Rightarrow> ([], orch)
           | Some idx \<Rightarrow>
               let remaining = qs_remaining qs - 1 in
               ((if remaining \<ge> 0 then [time_left qid idx remaining] else []),
                map_set qid (qs\<lparr> qs_remaining := remaining \<rparr>) orch)))"

definition participant_summary :: "string \<times> orch_participant \<Rightarrow> json" where
  "participant_summary e = JObject
     [(''user'', JString (fst e)), (''score'', JNumber (of_int (op_score (snd e)))),
      (''correctAnswers'', JNumber (of_int (op_correctAnswers (snd e)))),
      (''timeSpent'', JNumber (of_int (op_timeSpent (snd e)))),
      (''isCompleted'', JBool (op_isCompleted (snd e)))]"

text \<open>The callback \<open>endHandle\<close>: the question closes, its answer is revealed, and either
  the quiz is finalized or the next question is scheduled after a gap of one second.\<close>

definition endHandle :: "orchestrator \<Rightarrow> string \<Rightarrow> effect list \<times> orchestrator" where
  "endHandle orch qid =
     (case map_of orch qid of
        None \<Rightarrow> ([], orch)
      | Some qs \<Rightarrow>
          (case qs_endHandle qs of
             None \<Rightarrow> ([], orch)
           | Some idx \<Rightarrow>
              (case js_index (qs_questions qs) idx of
                 None \<Rightarrow> ([], orch)
               | Some question \<Rightarrow>
                   let closing =
                         [Emit (ToRoom qid) ''question-ended'' (JObject
                            [(''questionIndex'', JNumber (of_int idx)),
                             (''correctIndex'', JNumber (of_int (q_correctIndex question)))]),
                          DbSetParticipants (qs_docId qs) (map participant_summary (qs_participants qs))];
                       nextIdx = idx + 1
                   in if nextIdx \<ge> int (length (qs_questions qs))
                      then (let (effects, orch') =
                                  finalizeQuiz (map_set qid (qs\<lparr> qs_endHandle := None \<rparr>) orch) qid
                            in (closing @ effects, orch'))
                      else (closing,
                            map_set qid (qs\<lparr> qs_endHandle := None, qs_gapTimer := Some nextIdx \<rparr>) orch))))"

text \<open>The gap timer \<open>setTimeout(() => advanceTo(nextIdx), 1000)\<close> fires.\<close>

definition gapTimer :: "orchestrator \<Rightarrow> string \<Rightarrow> int \<Rightarrow> effect list \<times> orchestrator" where
  "gapTimer orch qid now =
     (case map_of orch qid of
        None \<Rightarrow> ([], orch)
      | Some qs \<Rightarrow>
          (case qs_gapTimer qs of
             None \<Rightarrow> ([], orch)
           | Some nextIdx \<Rightarrow> advanceTo (map_set qid (qs\<lparr> qs_gapTimer := None \<rparr>) orch) qid now nextIdx))"

text \<open>\<open>JSON.parse(JSON.stringify(quizDoc))\<close> on a stored number: a finite number stays,
  anything else becomes \<open>null\<close>.\<close>

definition cloned_number :: "number option \<Rightarrow> jsval" where
  "cloned_number n = (case n of Some (Finite r) \<Rightarrow> JNum r | _ \<Rightarrow> JsNull)"

definition clone_participant :: "participant \<Rightarrow> doc_participant" where
  "clone_participant p =
     \<lparr> dp_user = p_user p, dp_score = p_score p,
       dp_answers = map (\<lambda>a. \<lparr> da_questionId = Some (a_questionId a), da_questionIndex = None,
                                da_selectedIndex = cloned_number (a_selectedIndex a), da_correct = a_correct a,
                                da_points = a_points a, da_timeTaken = a_timeTaken a \<rparr>) (p_answers p),
       dp_isCompleted = p_isCompleted p, dp_totalQuestions = p_totalQuestions p,
       dp_correctAnswers = p_correctAnswers p, dp_timeSpent = p_timeSpent p \<rparr>"

definition initial_qstate :: "quiz \<Rightarrow> qstate" where
  "initial_qstate quizDoc =
     \<lparr> qs_docId = quiz_id quizDoc, qs_title = quiz_title quizDoc,
       qs_questions = quiz_questions quizDoc,
       qs_docParticipants = map clone_participant (quiz_participants quizDoc),
       qs_currentIndex = -1, qs_running = True, qs_questionDurationSec = 15,
       qs_participants =
         foldl (\<lambda>m p. map_set (p_user p)
                  \<lparr> op_socketId = None, op_answers = [], op_score = p_score p,
                    op_correctAnswers = p_correctAnswers p, op_timeSpent = p_timeSpent p,
                    op_isCompleted = p_isCompleted p \<rparr> m) [] (quiz_participants quizDoc),
       qs_questionStartAt = None, qs_remaining = 0, qs_endHandle = None, qs_gapTimer = None,
       qs_persistCount = 0 \<rparr>"

definition startQuizNow ::
  "store \<Rightarrow> orchestrator \<Rightarrow> int \<Rightarrow> string \<Rightarrow> string + effect list \<times> orchestrator" where
  "startQuizNow db orch now quizId =
     (case db quizId of
        None \<Rightarrow> Inl ''Quiz not found''
      | Some quizDoc \<Rightarrow>
          if (case map_of orch quizId of None \<Rightarrow> False | Some qs \<Rightarrow> qs_running qs)
          then Inr ([], orch)
          else let qstate = initial_qstate quizDoc;
                   (effects, orch') = advanceTo (map_set quizId qstate orch) quizId now 0
               in Inr (effects @
                        [Emit (ToRoom quizId) ''quiz-started'' (JObject
                           [(''quizId'', JString quizId), (''title'', JString (qs_title qstate)),
                            (''totalQuestions'', JNumber (of_int (int (length (qs_questions qstate))))),
                            (''questionDuration'', JNumber (of_int (qs_questionDurationSec qstate)))])],
                       orch'))"

text \<open>
  What happens in the orchestrator, one event after the other: the three socket
  events with their payloads, the loss of a connection, a call of \<open>startQuizNow\<close>
  (which reads the quiz from the store), and the three timer callbacks of a quiz.
\<close>

datatype socket_event =
    JoinQuiz string join_payload
  | SubmitAnswer int answer_payload
  | LeaveQuiz join_payload
  | Disconnect string
  | StartQuizNow int string
  | QuestionEnds string
  | GapOver int string
  | SecondPasses string

fun handle_event :: "store \<Rightarrow> orchestrator \<Rightarrow> socket_event \<Rightarrow> orchestrator" where
  "handle_event db orch (JoinQuiz socketId payload) = snd (join_quiz orch socketId payload)"
| "handle_event db orch (SubmitAnswer now payload) = snd (submit_answer orch now payload)"
| "handle_event db orch (LeaveQuiz payload) = leave_quiz orch payload"
| "handle_event db orch (Disconnect socketId) = socket_disconnect orch socketId"
| "handle_event db orch (StartQuizNow now quizId) =
     (case startQuizNow db orch now quizId of Inl err \<Rightarrow> orch | Inr (effects, orch') \<Rightarrow> orch')"
| "handle_event db orch (QuestionEnds quizId) = snd (endHandle orch quizId)"
| "handle_event db orch (GapOver now quizId) = snd (gapTimer orch quizId now)"
| "handle_event db orch (SecondPasses quizId) = snd (perSecond orch quizId)"

definition orchestrate :: "store \<Rightarrow> orchestrator \<Rightarrow> socket_event list \<Rightarrow> orchestrator" where
  "orchestrate db orch events = foldl (handle_event db) orch events"

section \<open>Today's quiz (getTodayQuiz in backend/controllers/quizController.js)\<close>

text \<open>The quiz of the day is the result of a date query on the store; the handler
  receives it, or nothing, and the id of the caller when there is one.\<close>

definition getTodayQuiz :: "quiz option \<Rightarrow> string option \<Rightarrow> json" where
  "getTodayQuiz found userId =
     (case found of
        None \<Rightarrow> JObject [(''exists'', JBool False), (''message'', JString ''No quiz scheduled for today'')]
      | Some qz \<Rightarrow>
          let mine = (\<lambda>p. Some (p_user p) = userId);
              opt = (\<lambda>t. case t of None \<Rightarrow> JNull | Some v \<Rightarrow> JNumber (of_int v))
          in JObject
            [(''exists'', JBool True),
             (''quiz'', JObject
               [(''_id'', JString (quiz_id qz)), (''date'', JNumber (of_int (quiz_date qz))),
                (''startTime'', opt (quiz_startTime qz)), (''endTime'', opt (quiz_endTime qz)),
                (''isLive'', JBool (quiz_isLive qz)), (''isCompleted'', JBool (quiz_isCompleted qz)),
                (''totalQuestions'', JNumber (of_int (quiz_totalQuestions qz))),
                (''timePerQuestion'', JNumber (of_int (quiz_timePerQuestion qz))),
                (''currentParticipants'', JNumber (of_int (quiz_currentParticipants qz))),
                (''maxParticipants'', JNumber (of_int (quiz_maxParticipants qz))),
                (''userParticipated'', JBool (list_ex mine (quiz_participants qz))),
                (''participant'',
                   (case find mine (quiz_participants qz) of
                      None \<Rightarrow> JNull
                    | Some cp \<Rightarrow> JObject
                        [(''isCompleted'', JBool (p_isCompleted cp)), (''score'', JNumber (of_int (p_score cp))),
                         (''correctAnswers'', JNumber (of_int (p_correctAnswers cp))),
                         (''totalQuestions'', JNumber (of_int (p_totalQuestions cp)))])),
                (''questions'', JArray (map (\<lambda>q. JObject
                    [(''_id'', JString (q_id q)), (''text'', JString (q_text q)),
                     (''options'', JArray (map JString (q_options q))),
                     (''category'', JString (q_category q)),
                     (''difficulty'', JString (q_difficulty q)),
                     (''points'', JNumber (of_int (q_points q)))]) (quiz_questions qz)))])])"

section \<open>Joining the room of a quiz (join-room in backend/server.js)\<close>

text \<open>
  The source holds backend/server.js in two versions. In both, the handler of
  \<open>join-room\<close> admits a paid participant of a live quiz to the room of the quiz and
  sends the question that is open to the socket that joined. The handler is given
  the socket and what it finds in its environment: the device id stored for the
  user (empty when none), whether the process runs in production, and the sockets
  registered for the same user that are still connected. (It also records the socket
  id, address and user agent in the participant's subdocument; these fields are not
  part of the model, so the store is not changed here.)
\<close>

record socket =
  so_id :: string
  so_userId :: string
  so_username :: string

record room_payload =
  jr_roomId :: string
  jr_deviceId :: string

definition join_error :: "string \<Rightarrow> effect" where
  "join_error msg = Emit ToSocket ''join-error'' (JObject [(''message'', JString msg)])"

text \<open>A question subdocument as an event carries it when it is passed as it is: all
  paths of \<open>QuestionSchema\<close>. (The order of the fields plays no role below.)\<close>

definition question_document :: "question \<Rightarrow> json" where
  "question_document q = JObject
     [(''_id'', JString (q_id q)), (''text'', JString (q_text q)),
      (''options'', JArray (map JString (q_options q))),
      (''correctIndex'', JNumber (of_int (q_correctIndex q))),
      (''category'', JString (q_category q)), (''difficulty'', JString (q_difficulty q)),
      (''points'', JNumber (of_int (q_points q)))]"

text \<open>The first version: \<open>question: q\<close>, the subdocument itself.\<close>

definition join_room ::
  "store \<Rightarrow> int \<Rightarrow> socket \<Rightarrow> string \<Rightarrow> bool \<Rightarrow> string list \<Rightarrow> room_payload \<Rightarrow> effect list" where
  "join_room db now socket storedDeviceId production oldSockets payload =
     (case db (jr_roomId payload) of
        None \<Rightarrow> [join_error ''Quiz not available'']
      | Some quiz \<Rightarrow>
          if \<not> quiz_isLive quiz then [join_error ''Quiz not available'']
          else (case find (\<lambda>p. p_user p = so_userId socket \<and> p_paid p) (quiz_participants quiz) of
             None \<Rightarrow> [join_error ''Not registered'']
           | Some participant \<Rightarrow>
               if jr_deviceId payload \<noteq> [] \<and> storedDeviceId \<noteq> []
                    \<and> storedDeviceId \<noteq> jr_deviceId payload \<and> production
               then [join_error ''Device mismatch'']
               else
                 map (\<lambda>sid. Emit (ToSocketId sid) ''force-disconnect''
                                (JObject [(''message'', JString ''Connected elsewhere'')])) oldSockets
                 @ [Emit ToSocket ''joined'' (JObject [(''roomId'', JString (''quiz-'' @ jr_roomId payload))]),
                    Emit (ToOthers (''quiz-'' @ jr_roomId payload)) ''user-joined'' (JObject
                      [(''userId'', JString (so_userId socket)), (''username'', JString (so_username socket))])]
                 @ (if quiz_currentQuestionIndex quiz \<ge> 0
                    then (case js_index (quiz_questions quiz) (quiz_currentQuestionIndex quiz) of
                            None \<Rightarrow> []
                          | Some q \<Rightarrow>
                              let startMs = (case quiz_questionStartTime quiz of
                                               None \<Rightarrow> now
                                             | Some t \<Rightarrow> if t = 0 then now else t);
                                  elapsedMs = now - startMs;
                                  durationMs = (if quiz_timePerQuestion quiz = 0 then 15
                                                else quiz_timePerQuestion quiz) * 1000
                              in [Emit ToSocket ''question'' (JObject
                                    [(''questionIndex'', JNumber (of_int (quiz_currentQuestionIndex quiz + 1))),
                                     (''totalQuestions'', JNumber (of_int (quiz_totalQuestions quiz))),
                                     (''question'', question_document q),
                                     (''timeLeft'', JNumber (of_int (max 0 (durationMs - elapsedMs)))),
                                     (''startTime'', JNumber (of_int startMs)),
                                     (''duration'', JNumber (of_int durationMs))])])
                    else [])))"

text \<open>The second version builds the question of the payload field by field.\<close>

definition join_room_v2 ::
  "store \<Rightarrow> int \<Rightarrow> socket \<Rightarrow> string \<Rightarrow> bool \<Rightarrow> string list \<Rightarrow> room_payload \<Rightarrow> effect list" where
  "join_room_v2 db now socket storedDeviceId production oldSockets payload =
     (case db (jr_roomId payload) of
        None \<Rightarrow> [join_error ''Quiz not found'']
      | Some quiz \<Rightarrow>
          if \<not> quiz_isLive quiz then [join_error ''Quiz is not live yet'']
          else (case find (\<lambda>p. p_user p = so_userId socket \<and> p_paid p) (quiz_participants quiz) of
             None \<Rightarrow> [join_error ''You are not registered or payment not verified'']
           | Some participant \<Rightarrow>
               if jr_deviceId payload \<noteq> [] \<and> storedDeviceId \<noteq> []
                    \<and> storedDeviceId \<noteq> jr_deviceId payload \<and> production
               then [join_error
                       ''Device mismatch detected. Please use the same device you registered with.'']
               else
                 map (\<lambda>sid. Emit (ToSocketId sid) ''force-disconnect''
                                (JObject [(''message'', JString ''You connected from another device/session'')]))
                   oldSockets
                 @ [Emit ToSocket ''joined'' (JObject [(''roomId'', JString (''quiz-'' @ jr_roomId payload))]),
                    Emit (ToOthers (''quiz-'' @ jr_roomId payload)) ''user-joined'' (JObject
                      [(''userId'', JString (so_userId socket)), (''username'', JString (so_username socket))])]
                 @ (if quiz_currentQuestionIndex quiz \<ge> 0
                    then (case js_index (quiz_questions quiz) (quiz_currentQuestionIndex quiz) of
                            None \<Rightarrow> []
                          | Some q \<Rightarrow>
                              let startMs = (case quiz_questionStartTime quiz of
                                               None \<Rightarrow> now
                                             | Some t \<Rightarrow> t);
                                  elapsedMs = now - startMs;
                                  durationMs = (if quiz_timePerQuestion quiz = 0 then 15
                                                else quiz_timePerQuestion quiz) * 1000;
                                  remainingMs = max 0 (durationMs - elapsedMs)
                              in [Emit ToSocket ''question'' (JObject
                                    [(''questionIndex'', JNumber (of_int (quiz_currentQuestionIndex quiz + 1))),
                                     (''totalQuestions'', JNumber (of_int (quiz_totalQuestions quiz))),
                                     (''question'', JObject
                                        [(''_id'', JString (q_id q)), (''text'', JString (q_text q)),
                                         (''options'', JArray (map JString (q_options q))),
                                         (''category'', JString (q_category q)),
                                         (''points'', JNumber (of_int (q_points q)))]),
                                     (''timeLeft'', JNumber (of_int remainingMs)),
                                     (''startTime'', JNumber (of_int startMs)),
                                     (''duration'', JNumber (of_int durationMs))])])
                    else [])))"

text \<open>The field names that occur anywhere in a payload.\<close>

fun json_keys :: "json \<Rightarrow> string set" where
  "json_keys (JArray xs) = (\<Union>x \<in> set xs. json_keys x)"
| "json_keys (JObject kvs) = fst ` set kvs \<union> (\<Union>kv \<in> set kvs. json_keys (snd kv))"
| "json_keys _ = {}"

fun emitted :: "effect \<Rightarrow> json list" where
  "emitted (Emit t name payload) = [payload]"
| "emitted (DbSetParticipants qid ps) = []"

section \<open>Sample data\<close>

text \<open>A quiz of two questions, the second worth no points, with two participants who
  have just joined; the same quiz as the socket orchestrator holds it while its first
  question is open.\<close>

definition question0 :: question where
  "question0 = \<lparr> q_id = ''q0'', q_text = ''2 + 2'', q_options = [''3'', ''4'', ''5'', ''6''],
                 q_correctIndex = 1, q_category = ''math'', q_difficulty = ''easy'', q_points = 10 \<rparr>"

definition question1 :: question where
  "question1 = \<lparr> q_id = ''q1'', q_text = ''warm-up'', q_options = [''a'', ''b'', ''c'', ''d''],
                 q_correctIndex = 2, q_category = ''misc'', q_difficulty = ''easy'', q_points = 0 \<rparr>"

definition joined :: "string \<Rightarrow> string \<Rightarrow> participant" where
  "joined pid uid = new_participant pid uid"

definition sample_quiz :: quiz where
  "sample_quiz = \<lparr> quiz_id = ''quiz1'', quiz_title = ''Daily Quiz'', quiz_date = 0,
       quiz_status = ''live'', quiz_startTime = Some 100000, quiz_endTime = None,
       quiz_questions = [question0, question1],
       quiz_participants = [joined ''p1'' ''alice'', joined ''p2'' ''bob''],
       quiz_isLive = True, quiz_isCompleted = False, quiz_published = True,
       quiz_totalQuestions = 2, quiz_timePerQuestion = 15, quiz_maxParticipants = 2000,
       quiz_currentParticipants = 2, quiz_shuffleQuestions = False,
       quiz_currentQuestionIndex = 0, quiz_questionStartTime = Some 100000 \<rparr>"

definition sample_db :: store where
  "sample_db = Map.empty(''quiz1'' \<mapsto> sample_quiz)"

definition sample_request :: submit_request where
  "sample_request = \<lparr> r_quizId = ''quiz1'', r_userId = ''alice'', r_questionId = ''q0'',
       r_selectedIndex = Some (JNum 1), r_timeTaken = None \<rparr>"

definition on_socket :: orch_participant where
  "on_socket = fresh_participant ''s1''"

definition sample_qstate :: qstate where
  "sample_qstate = \<lparr> qs_docId = ''quiz1'', qs_title = ''Daily Quiz'',
       qs_questions = [question0, question1], qs_docParticipants = [],
       qs_currentIndex = 0, qs_running = True, qs_questionDurationSec = 15,
       qs_participants = [(''alice'', on_socket)],
       qs_questionStartAt = Some 100000, qs_remaining = 15, qs_endHandle = Some 0,
       qs_gapTimer = None, qs_persistCount = 0 \<rparr>"

definition sample_payload :: "jsval \<Rightarrow> answer_payload" where
  "sample_payload questionIndex =
     \<lparr> ap_quizId = ''quiz1'', ap_userId = ''alice'', ap_questionIndex = Some questionIndex,
       ap_selectedIndex = Some (JNum 1), ap_timestampClient = None \<rparr>"

text \<open>The participants of the ranking example: scores 50, 80, 80, 30 with times
  10, 5, 8, 20, as the quiz document and as the orchestrator holds them.\<close>

definition scored :: "string \<Rightarrow> string \<Rightarrow> int \<Rightarrow> int \<Rightarrow> participant" where
  "scored pid uid score time = (joined pid uid)\<lparr> p_score := score, p_timeSpent := time \<rparr>"

definition rank_quiz :: quiz where
  "rank_quiz = sample_quiz\<lparr> quiz_participants :=
     [scored ''p1'' ''u1'' 50 10, scored ''p2'' ''u2'' 80 5,
      scored ''p3'' ''u3'' 80 8, scored ''p4'' ''u4'' 30 20] \<rparr>"

definition in_memory :: "int \<Rightarrow> int \<Rightarrow> orch_participant" where
  "in_memory score time = on_socket\<lparr> op_score := score, op_timeSpent := time \<rparr>"

definition rank_qstate :: qstate where
  "rank_qstate = sample_qstate\<lparr> qs_participants :=
     [(''u1'', in_memory 50 10), (''u2'', in_memory 80 5),
      (''u3'', in_memory 80 8), (''u4'', in_memory 30 20)] \<rparr>"

text \<open>A participant as \<open>endQuizSession\<close> leaves it at position \<open>index\<close> of the
  sorted list, and an in-memory participant as \<open>finalizeQuiz\<close> puts it into its array.\<close>

definition ranked_as :: "int \<Rightarrow> nat \<Rightarrow> participant \<Rightarrow> participant" where
  "ranked_as now index p =
     p\<lparr> p_isCompleted := True, p_rank := Some (int index + 1),
        p_endTime := Some (case p_endTime p of None \<Rightarrow> now | Some t \<Rightarrow> t) \<rparr>"

definition in_ranking :: "string \<times> orch_participant \<Rightarrow> ranked" where
  "in_ranking e = \<lparr> rk_user = fst e, rk_score = op_score (snd e),
                    rk_correctAnswers = op_correctAnswers (snd e),
                    rk_timeSpent = op_timeSpent (snd e), rk_rank = None \<rparr>"

text \<open>A quiz of three questions that is scheduled and not yet live, and a run of its
  session driver: the quiz is started, the reload for the second question fails, and
  the retry timer fires.\<close>

definition question2 :: question where
  "question2 = \<lparr> q_id = ''q2'', q_text = ''3 * 3'', q_options = [''6'', ''7'', ''8'', ''9''],
                 q_correctIndex = 3, q_category = ''math'', q_difficulty = ''easy'', q_points = 10 \<rparr>"

definition scheduled_quiz :: quiz where
  "scheduled_quiz = sample_quiz\<lparr> quiz_questions := [question0, question1, question2],
       quiz_totalQuestions := 3, quiz_status := ''scheduled'', quiz_isLive := False,
       quiz_startTime := None, quiz_currentQuestionIndex := -1, quiz_questionStartTime := None \<rparr>"

definition scheduled_db :: store where
  "scheduled_db = Map.empty(''quiz1'' \<mapsto> scheduled_quiz)"

definition after_start :: "effect list \<times> store \<times> (string \<times> session) list \<times> driver option" where
  "after_start = startQuizDirectly NoFault 100000 scheduled_db [] scheduled_quiz"



text \<open>A run in which two manual starts of the scheduled quiz overlap: both read the
  quiz before either writes, and the second write lands after the session of the
  first has advanced to the second question.\<close>

definition no_random :: "nat \<Rightarrow> real" where
  "no_random k = 0"

definition first_write :: "effect list \<times> store \<times> (string \<times> session) list \<times> driver option" where
  "first_write = manualStartQuiz_write NoFault 100002 scheduled_db [] (go_live 100000 scheduled_quiz)"

definition question_advanced :: "effect list \<times> store \<times> (string \<times> session) list \<times> driver" where
  "question_advanced =
     (case first_write of (effects, db, sessions, dr) \<Rightarrow> timer_fires NoFault 115002 db sessions (the dr))"

definition second_write :: "effect list \<times> store \<times> (string \<times> session) list \<times> driver option" where
  "second_write =
     (case question_advanced of (effects, db, sessions, dr) \<Rightarrow>
        manualStartQuiz_write NoFault 115003 db sessions (go_live 100001 scheduled_quiz))"

text \<open>
  The scheduled quiz after its start at 100000 and the regular end of its first
  question: at 115000 the timer fires and the driver opens the second question. In
  the socket orchestrator, the sample quiz started at 100000, after the end of its
  first question and the gap of one second.
\<close>

definition second_question_open :: "effect list \<times> store \<times> (string \<times> session) list \<times> driver" where
  "second_question_open =
     (case after_start of (effects, db, sessions, dr) \<Rightarrow> timer_fires NoFault 115000 db sessions (the dr))"

definition orch_second_question :: orchestrator where
  "orch_second_question =
     orchestrate sample_db []
       [StartQuizNow 100000 ''quiz1'', QuestionEnds ''quiz1'', GapOver 116000 ''quiz1'']"

text \<open>
  The sample quiz after alice has answered its first question over HTTP, and the
  orchestrator after \<open>startQuizNow\<close> has then been called for that quiz and alice has
  answered the first question on the socket.
\<close>

definition answered_over_http :: store where
  "answered_over_http = serve sample_db [Answer 103000 sample_request]"

definition carried_over :: orchestrator where
  "carried_over =
     orchestrate answered_over_http []
       [StartQuizNow 120000 ''quiz1'', SubmitAnswer 121000 (sample_payload (JNum 0))]"

text \<open>The score and the points of the ledger entries of a user in a quiz of the
  orchestrator.\<close>

definition score_and_ledger :: "orchestrator \<Rightarrow> string \<Rightarrow> string \<Rightarrow> (int \<times> int list) option" where
  "score_and_ledger orch quizId userId =
     (case map_of orch quizId of
        None \<Rightarrow> None
      | Some qs \<Rightarrow>
          (case map_of (qs_participants qs) userId of
             None \<Rightarrow> None
           | Some p \<Rightarrow> Some (op_score p, map (\<lambda>a. oa_points (snd a)) (op_answers p))))"

text \<open>A socket of alice, and her request to join the room of the sample quiz.\<close>

definition alice_socket :: socket where
  "alice_socket = \<lparr> so_id = ''s9'', so_userId = ''alice'', so_username = ''Alice'' \<rparr>"

definition alice_joins :: room_payload where
  "alice_joins = \<lparr> jr_roomId = ''quiz1'', jr_deviceId = [] \<rparr>"

text \<open>A question after shuffling, compared with the question it comes from: all fields
  but the options and the correct index agree, the options are the same up to order,
  and when the original correct index is within the options, so is the new one and it
  points at the same option text.\<close>

definition shuffled_from :: "question \<Rightarrow> question \<Rightarrow> bool" where
  "shuffled_from q' q \<longleftrightarrow>
     q'\<lparr> q_options := [], q_correctIndex := 0 \<rparr> = q\<lparr> q_options := [], q_correctIndex := 0 \<rparr>
     \<and> mset (q_options q') = mset (q_options q)
     \<and> (0 \<le> q_correctIndex q \<and> q_correctIndex q < int (length (q_options q))
          \<longrightarrow> 0 \<le> q_correctIndex q' \<and> q_correctIndex q' < int (length (q_options q'))
              \<and> q_options q' ! nat (q_correctIndex q') = q_options q ! nat (q_correctIndex q))"

text \<open>The sample quiz before anybody has entered it, and the requests by which alice
  enters it and answers its first question.\<close>

definition open_quiz_db :: store where
  "open_quiz_db = Map.empty(''quiz1'' \<mapsto> sample_quiz\<lparr> quiz_participants := [], quiz_currentParticipants := 0 \<rparr>)"

definition alice_enters_and_answers :: "request list" where
  "alice_enters_and_answers =
     [Enter True ''p1'' \<lparr> e_quizId = ''quiz1'', e_userId = ''alice'' \<rparr>, Answer 103000 sample_request]"

text \<open>In the orchestrator: the sample quiz is started, alice joins on socket \<open>s1\<close> and
  answers the first question.\<close>

definition alice_joins_and_answers :: "socket_event list" where
  "alice_joins_and_answers =
     [StartQuizNow 100000 ''quiz1'', JoinQuiz ''s1'' \<lparr> jq_quizId = ''quiz1'', jq_userId = ''alice'' \<rparr>,
      SubmitAnswer 103000 (sample_payload (JNum 0))]"

text \<open>
  Reconciliation of score and ledger. A stored participant is reconciled when the
  score is the sum of the points of the answers, and a store when all participants
  of all its quizzes are. In the orchestrator the ledger is the \<open>answers\<close> map of the
  in-memory participant.
\<close>

definition reconciled :: "participant \<Rightarrow> bool" where
  "reconciled p \<longleftrightarrow> p_score p = sum_list (map a_points (p_answers p))"

definition store_reconciled :: "store \<Rightarrow> bool" where
  "store_reconciled db \<longleftrightarrow> (\<forall>k qz. db k = Some qz \<longrightarrow> list_all reconciled (quiz_participants qz))"

definition in_step :: "orch_participant \<Rightarrow> bool" where
  "in_step p \<longleftrightarrow> op_score p = sum_list (map (\<lambda>a. oa_points (snd a)) (op_answers p))"

definition all_in_step :: "orchestrator \<Rightarrow> bool" where
  "all_in_step orch \<longleftrightarrow>
     list_all (\<lambda>e. list_all (\<lambda>u. in_step (snd u)) (qs_participants (snd e))) orch"

definition stored_scores_zero :: "store \<Rightarrow> bool" where
  "stored_scores_zero db \<longleftrightarrow>
     (\<forall>k qz. db k = Some qz \<longrightarrow> list_all (\<lambda>p. p_score p = 0) (quiz_participants qz))"

section \<open>Verified properties\<close>

subsection \<open>Shared lemmas\<close>

lemma find_update_first:
  "P (f x) \<Longrightarrow> find P xs = Some x \<Longrightarrow> find P (update_first P f xs) = Some (f x)"
  by (induction xs) (auto split: if_splits)

lemma update_first_set:
  "y \<in> set (update_first P f xs) \<Longrightarrow> y \<in> set xs \<or> (\<exists>x \<in> set xs. P x \<and> y = f x)"
  by (induction xs) (auto split: if_splits)

lemma find_Some_set: "find P xs = Some x \<Longrightarrow> x \<in> set xs \<and> P x"
  by (induction xs) (auto split: if_splits)

lemma find_None_notin: "find P xs = None \<Longrightarrow> \<forall>x \<in> set xs. \<not> P x"
  by (induction xs) (auto split: if_splits)

lemma alist_update_fresh: "k \<notin> fst ` set m \<Longrightarrow> AList.update k v m = m @ [(k, v)]"
  by (induction m) auto

lemma alist_update_set: "e \<in> set (AList.update k v m) \<Longrightarrow> e = (k, v) \<or> e \<in> set m"
  by (induction m) (auto split: if_splits)

lemma alist_delete_set: "e \<in> set (AList.delete k m) \<Longrightarrow> e \<in> set m"
  by (induction m) (auto split: if_splits)

lemmas number_defs = StringToNumber_def non_decimal_def radix_literal_def unsigned_decimal_def
  exponent_part_def negate_def digits_value_def is_digit_def digit_val_def trim_def is_space_def

lemmas sample_defs = question0_def question1_def joined_def new_participant_def sample_quiz_def
  sample_db_def sample_request_def on_socket_def fresh_participant_def sample_qstate_def

lemmas scheduled_defs = question2_def scheduled_quiz_def scheduled_db_def

subsection \<open>Client-supplied time is ignored\<close>

text \<open>
  Claim C9. The outcome of an answer submission does not depend on the time the client
  reports. The HTTP handler destructures \<open>timeTaken\<close> from the body and never reads it;
  the socket handler does not even destructure \<open>timestampClient\<close>. Two submissions that
  differ only in that field yield the same response, the same emitted events and the
  same stored state (hence the same ledger entry); the time recorded is derived from
  \<open>now\<close> and the recorded start instant alone.
\<close>

theorem client_time_not_trusted:
  "submitAnswer db now (req\<lparr>r_timeTaken := t\<rparr>) = submitAnswer db now req
   \<and> submit_answer orch now (payload\<lparr>ap_timestampClient := t'\<rparr>) = submit_answer orch now payload"
  by (simp add: submitAnswer_def submitAnswer_on_def record_answer_def submit_answer_def Let_def
        split: option.splits cast.splits)

subsection \<open>Runs of the sample quizzes\<close>

lemma after_start_eq:
  "after_start =
     ([Emit (ToRoom ''quiz-quiz1'') ''question''
         (question_payload 0 (go_live 100000 scheduled_quiz) question0 100000),
       quiz_started (go_live 100000 scheduled_quiz)],
      scheduled_db(''quiz1'' \<mapsto> (go_live 100000 scheduled_quiz)\<lparr> quiz_currentQuestionIndex := 0,
                                   quiz_questionStartTime := Some 100000 \<rparr>),
      [(''quiz1'', \<lparr> se_questionIndex = 0, se_questionStartTime = 100000 \<rparr>)],
      Some \<lparr> dr_quizId = ''quiz1'', dr_questionIndex = 0, dr_timer = Some (AdvanceAfter 15000) \<rparr>)"
  by (simp add: after_start_def startQuizDirectly_def claim_live_def startQuizSession_def
        emitNextQuestion_def Let_def map_has_def map_set_def js_index_def go_live_def
        scheduled_defs sample_defs)



lemma second_question_open_eq:
  "second_question_open =
     ([Emit (ToRoom ''quiz-quiz1'') ''question''
         (question_payload 1 ((go_live 100000 scheduled_quiz)\<lparr> quiz_currentQuestionIndex := 0,
                                   quiz_questionStartTime := Some 100000 \<rparr>) question1 115000)],
      scheduled_db(''quiz1'' \<mapsto> (go_live 100000 scheduled_quiz)\<lparr> quiz_currentQuestionIndex := 1,
                                   quiz_questionStartTime := Some 115000 \<rparr>),
      [(''quiz1'', \<lparr> se_questionIndex = 1, se_questionStartTime = 115000 \<rparr>)],
      \<lparr> dr_quizId = ''quiz1'', dr_questionIndex = 1, dr_timer = Some (AdvanceAfter 15000) \<rparr>)"
  by (simp add: second_question_open_def after_start_eq timer_fires_def emitNextQuestion_def Let_def
        map_set_def js_index_def go_live_def scheduled_defs sample_defs)

lemma orch_second_question_eq:
  "orch_second_question =
     [(''quiz1'', (initial_qstate sample_quiz)\<lparr> qs_currentIndex := 1, qs_questionStartAt := Some 116000,
                     qs_remaining := 15, qs_endHandle := Some 1, qs_gapTimer := None \<rparr>)]"
  by (simp add: orch_second_question_def orchestrate_def startQuizNow_def advanceTo_def endHandle_def
        gapTimer_def finalizeQuiz_def initial_qstate_def Let_def map_set_def js_index_def sample_defs)

subsection \<open>Time window\<close>

text \<open>
  Within the question that is open, both handlers enforce the window. Over HTTP a
  submission is refused without any change when more than the duration and one
  second have passed since the start instant that the quiz record holds, and
  accepted one second before the end when the other checks pass. On the socket the
  elapsed whole seconds are compared with the duration.
\<close>

lemma http_late:
  assumes "db (r_quizId req) = Some qz"
    and "elapsed_seconds qz now > of_int (quiz_timePerQuestion qz) + 1"
  shows "snd (submitAnswer db now req) = db
     \<and> fst (submitAnswer db now req) \<in> {UserNotRegistered, QuestionAlreadyAnswered, QuestionNotFound, TimeLimitExceeded}"
  using assms by (simp add: submitAnswer_def submitAnswer_on_def split: option.splits)

lemma http_late_reason:
  assumes "db (r_quizId req) = Some qz"
    and "find (\<lambda>p. p_user p = r_userId req) (quiz_participants qz) = Some p"
    and "find (\<lambda>a. a_questionId a = r_questionId req) (p_answers p) = None"
    and "find (\<lambda>q. q_id q = r_questionId req) (quiz_questions qz) = Some q"
    and "elapsed_seconds qz now > of_int (quiz_timePerQuestion qz) + 1"
  shows "submitAnswer db now req = (TimeLimitExceeded, db)"
  using assms by (simp add: submitAnswer_def submitAnswer_on_def)

lemma http_in_time:
  assumes "db (r_quizId req) = Some qz"
    and "find (\<lambda>p. p_user p = r_userId req) (quiz_participants qz) = Some p"
    and "find (\<lambda>a. a_questionId a = r_questionId req) (p_answers p) = None"
    and "find (\<lambda>q. q_id q = r_questionId req) (quiz_questions qz) = Some q"
    and "castNumber (r_selectedIndex req) \<noteq> CastError"
    and "elapsed_seconds qz now = of_int (quiz_timePerQuestion qz) - 1"
    and "\<not> elapsed_seconds qz now < 1 / 2"
  shows "\<exists>c pts tot. fst (submitAnswer db now req) = AnswerAccepted c pts tot"
  using assms by (auto simp: submitAnswer_def submitAnswer_on_def Let_def split: cast.splits)

lemma late_timeTaken:
  assumes "orch_elapsed qs now > of_int (qs_questionDurationSec qs) + 1"
  shows "orch_timeTaken qs now > qs_questionDurationSec qs"
proof -
  have "qs_questionDurationSec qs + 1 \<le> \<lfloor>orch_elapsed qs now\<rfloor>"
    using assms by (simp add: le_floor_iff)
  then show ?thesis
    by (simp add: orch_timeTaken_def)
qed

lemma orch_late_unchanged:
  assumes "orch_elapsed qs now > of_int (qs_questionDurationSec qs) + 1"
  shows "snd (submit_answer_running qs now quizId userId qi sel) = qs"
  using late_timeTaken[OF assms]
  by (simp add: submit_answer_running_def Let_def split: option.splits)

text \<open>
  Claim C3 fails on the code for the HTTP handler. \<open>submitAnswer\<close> finds the question by
  the id in the request and never checks that it is the question that is open; the
  elapsed time is measured from \<open>quiz.questionStartTime\<close>, which the session driver
  sets anew whenever it opens a question. The scheduled quiz below has 15 seconds per
  question; its first question opens at 100000 and its second at 115000. An answer to
  the first question that arrives at 117000, two seconds after the end of its window,
  is accepted with full points, and so is one at 129000; the time recorded for it is
  the time since the start of the second question. The same request is refused for
  the time limit as long as the record holds the start instant of the first question.
  The socket orchestrator, which checks the index of the question before anything
  else, refuses an answer to the first question once the second is open.
\<close>

theorem late_answer_to_closed_question_accepted:
  "(let opened = the (fst (snd after_start) ''quiz1'');
        db = fst (snd second_question_open);
        current = the (db ''quiz1'')
    in quiz_currentQuestionIndex opened = 0 \<and> quiz_questionStartTime opened = Some 100000
     \<and> quiz_timePerQuestion opened = 15
     \<and> quiz_currentQuestionIndex current = 1 \<and> quiz_questionStartTime current = Some 115000
     \<and> elapsed_seconds opened 117000 = of_int (quiz_timePerQuestion opened) + 2
     \<and> fst (submitAnswer db 117000 sample_request) = AnswerAccepted True 10 10
     \<and> map (\<lambda>p. (p_user p, map (\<lambda>a. (a_questionId a, a_timeTaken a, a_points a)) (p_answers p), p_score p))
          (quiz_participants (the (snd (submitAnswer db 117000 sample_request) ''quiz1'')))
        = [(''alice'', [(''q0'', 2, 10)], 10), (''bob'', [], 0)]
     \<and> fst (submitAnswer db 129000 sample_request) = AnswerAccepted True 10 10
     \<and> submitAnswer (fst (snd after_start)) 117000 sample_request
          = (TimeLimitExceeded, fst (snd after_start)))
   \<and> fst (submit_answer orch_second_question 117000 (sample_payload (JNum 0)))
       = [answer_error ''Answer for wrong question or late'']"
  by (simp add: after_start_eq second_question_open_eq orch_second_question_eq Let_def
        submitAnswer_def submitAnswer_on_def elapsed_seconds_def record_answer_def Math_round_def
        save_def go_live_def scheduled_defs sample_defs sample_payload_def
        submit_answer_def submit_answer_running_def initial_qstate_def)

subsection \<open>Scoring\<close>

lemma http_on_accepted:
  assumes "submitAnswer_on qz now req = (AnswerAccepted c pts tot, w)"
  shows "\<exists>p q sel. find (\<lambda>p. p_user p = r_userId req) (quiz_participants qz) = Some p
      \<and> find (\<lambda>q. q_id q = r_questionId req) (quiz_questions qz) = Some q
      \<and> castNumber (r_selectedIndex req) = Cast sel
      \<and> c = (r_selectedIndex req = Some (JNum (of_int (q_correctIndex q))))
      \<and> pts = (if c then q_points q else 0)
      \<and> tot = p_score p + pts
      \<and> w = Some (qz\<lparr> quiz_participants :=
             update_first (\<lambda>p. p_user p = r_userId req)
               (\<lambda>_. record_answer req sel c pts (Math_round (elapsed_seconds qz now)) now p)
               (quiz_participants qz) \<rparr>)"
  using assms
  by (auto simp: submitAnswer_on_def Let_def record_answer_def split: option.splits if_splits cast.splits)

lemma http_accepted:
  assumes "submitAnswer db now req = (AnswerAccepted c pts tot, db')"
  shows "\<exists>qz p q sel. db (r_quizId req) = Some qz
      \<and> find (\<lambda>p. p_user p = r_userId req) (quiz_participants qz) = Some p
      \<and> find (\<lambda>q. q_id q = r_questionId req) (quiz_questions qz) = Some q
      \<and> castNumber (r_selectedIndex req) = Cast sel
      \<and> c = (r_selectedIndex req = Some (JNum (of_int (q_correctIndex q))))
      \<and> pts = (if c then q_points q else 0)
      \<and> tot = p_score p + pts
      \<and> (\<exists>qz' p'. db' = save db qz'
            \<and> find (\<lambda>p. p_user p = r_userId req) (quiz_participants qz') = Some p'
            \<and> p_score p' = tot
            \<and> (\<exists>e. p_answers p' = p_answers p @ [e] \<and> a_questionId e = r_questionId req
                   \<and> a_selectedIndex e = sel \<and> a_correct e = c \<and> a_points e = pts
                   \<and> a_timeTaken e = Math_round (elapsed_seconds qz now)))"
proof -
  from assms obtain qz where qz: "db (r_quizId req) = Some qz"
    by (auto simp: submitAnswer_def split: option.splits)
  from assms qz obtain qz' where on: "submitAnswer_on qz now req = (AnswerAccepted c pts tot, Some qz')"
    and db': "db' = save db qz'"
    by (auto simp: submitAnswer_def submitAnswer_on_def Let_def
          split: option.splits if_splits prod.splits cast.splits)
  from http_on_accepted[OF on] obtain p q sel where
    p: "find (\<lambda>p. p_user p = r_userId req) (quiz_participants qz) = Some p"
    and q: "find (\<lambda>q. q_id q = r_questionId req) (quiz_questions qz) = Some q"
    and sel: "castNumber (r_selectedIndex req) = Cast sel"
    and c: "c = (r_selectedIndex req = Some (JNum (of_int (q_correctIndex q))))"
    and pts: "pts = (if c then q_points q else 0)"
    and tot: "tot = p_score p + pts"
    and w: "qz' = qz\<lparr> quiz_participants :=
             update_first (\<lambda>p. p_user p = r_userId req)
               (\<lambda>_. record_answer req sel c pts (Math_round (elapsed_seconds qz now)) now p)
               (quiz_participants qz) \<rparr>"
    by auto
  let ?p' = "record_answer req sel c pts (Math_round (elapsed_seconds qz now)) now p"
  have user: "p_user ?p' = r_userId req"
    using find_Some_set[OF p] by (simp add: record_answer_def)
  have "find (\<lambda>p. p_user p = r_userId req) (quiz_participants qz') = Some ?p'"
    unfolding w using find_update_first[of "\<lambda>p. p_user p = r_userId req" "\<lambda>_. ?p'" p, OF user p]
    by simp
  moreover have "p_score ?p' = tot" by (simp add: record_answer_def tot)
  moreover have "\<exists>e. p_answers ?p' = p_answers p @ [e] \<and> a_questionId e = r_questionId req
                   \<and> a_selectedIndex e = sel \<and> a_correct e = c \<and> a_points e = pts
                   \<and> a_timeTaken e = Math_round (elapsed_seconds qz now)"
    by (simp add: record_answer_def)
  ultimately show ?thesis using qz p q sel c pts tot db' by blast
qed

lemma record_answer_reconciled:
  "reconciled p \<Longrightarrow> reconciled (record_answer req sel c pts t now p)"
  by (simp add: record_answer_def reconciled_def)

lemma http_on_reconciled:
  assumes "list_all reconciled (quiz_participants qz)"
    and "submitAnswer_on qz now req = (r, Some qz')"
  shows "list_all reconciled (quiz_participants qz')"
  unfolding list_all_iff
proof
  fix x assume x: "x \<in> set (quiz_participants qz')"
  from assms(2) obtain p sel c pts t where
    p: "find (\<lambda>p. p_user p = r_userId req) (quiz_participants qz) = Some p"
    and w: "qz' = qz\<lparr> quiz_participants :=
             update_first (\<lambda>p. p_user p = r_userId req) (\<lambda>_. record_answer req sel c pts t now p)
               (quiz_participants qz) \<rparr>"
    by (auto simp: submitAnswer_on_def Let_def split: option.splits if_splits cast.splits)
  from x w have "x \<in> set (quiz_participants qz) \<or> x = record_answer req sel c pts t now p"
    using update_first_set[of x "\<lambda>p. p_user p = r_userId req" "\<lambda>_. record_answer req sel c pts t now p" "quiz_participants qz"]
    by auto
  moreover have "p \<in> set (quiz_participants qz)" using find_Some_set[OF p] by simp
  ultimately show "reconciled x"
    using assms(1) record_answer_reconciled unfolding list_all_iff by blast
qed

lemma submitAnswer_reconciled:
  assumes "store_reconciled db"
  shows "store_reconciled (snd (submitAnswer db now req))"
proof (cases "db (r_quizId req)")
  case None
  then show ?thesis using assms by (simp add: submitAnswer_def)
next
  case (Some qz)
  show ?thesis
  proof (cases "submitAnswer_on qz now req")
    case (Pair r w)
    show ?thesis
    proof (cases w)
      case None
      then show ?thesis using assms Some Pair by (simp add: submitAnswer_def)
    next
      case (Some qz')
      have "list_all reconciled (quiz_participants qz')"
        using http_on_reconciled[of qz now req r qz'] assms \<open>db (r_quizId req) = Some qz\<close> Pair Some
        by (auto simp: store_reconciled_def)
      then show ?thesis using assms \<open>db (r_quizId req) = Some qz\<close> Pair Some
        by (auto simp: submitAnswer_def save_def store_reconciled_def)
    qed
  qed
qed

lemma enterQuiz_reconciled:
  assumes "store_reconciled db"
  shows "store_reconciled (snd (enterQuiz db userFound newId req))"
  using assms
  by (auto simp: enterQuiz_def save_def store_reconciled_def new_participant_def reconciled_def
        split: option.splits)

lemma serve_reconciled:
  "store_reconciled db \<Longrightarrow> store_reconciled (serve db requests)"
proof (induction requests arbitrary: db)
  case Nil
  then show ?case by simp
next
  case (Cons r rest)
  then show ?case
    by (cases r) (simp_all add: enterQuiz_reconciled submitAnswer_reconciled)
qed

lemma no_participants_reconciled:
  "(\<forall>k qz. db k = Some qz \<longrightarrow> quiz_participants qz = []) \<Longrightarrow> store_reconciled db"
  by (auto simp: store_reconciled_def)

lemma save_to_participant_fresh:
  "\<not> map_has qi (op_answers p) \<Longrightarrow>
   op_answers (save_to_participant qi sel c pts t p)
     = op_answers p @ [(qi, \<lparr> oa_selectedIndex = sel, oa_isCorrect = c, oa_points = pts, oa_timeTaken = t \<rparr>)]
   \<and> op_score (save_to_participant qi sel c pts t p) = op_score p + pts"
  by (simp add: save_to_participant_def map_set_def map_has_def alist_update_fresh)

lemma running_rejected:
  assumes "Finite (of_int (qs_currentIndex qs)) \<noteq> js_Number qi
     \<or> map_of (qs_participants qs) userId = None
     \<or> (\<exists>p. map_of (qs_participants qs) userId = Some p \<and> map_has qi (op_answers p))
     \<or> orch_timeTaken qs now > qs_questionDurationSec qs
     \<or> js_index (qs_questions qs) (qs_currentIndex qs) = None"
  shows "\<exists>msg. submit_answer_running qs now quizId userId qi sel = ([answer_error msg], qs)"
proof (cases "Finite (of_int (qs_currentIndex qs)) \<noteq> js_Number qi")
  case True
  then show ?thesis by (auto simp: submit_answer_running_def)
next
  case idx: False
  show ?thesis
  proof (cases "map_of (qs_participants qs) userId")
    case None
    then show ?thesis using idx by (auto simp: submit_answer_running_def)
  next
    case (Some p)
    show ?thesis
    proof (cases "map_has qi (op_answers p)")
      case True
      then show ?thesis using idx Some by (auto simp: submit_answer_running_def)
    next
      case nodup: False
      show ?thesis
      proof (cases "orch_timeTaken qs now > qs_questionDurationSec qs")
        case True
        then show ?thesis using idx Some nodup by (auto simp: submit_answer_running_def Let_def)
      next
        case False
        then have "js_index (qs_questions qs) (qs_currentIndex qs) = None"
          using assms idx Some nodup by auto
        then show ?thesis using idx Some nodup False
          by (auto simp: submit_answer_running_def Let_def)
      qed
    qed
  qed
qed

lemma running_accepted:
  assumes "Finite (of_int (qs_currentIndex qs)) = js_Number qi"
    and "map_of (qs_participants qs) userId = Some p"
    and "\<not> map_has qi (op_answers p)"
    and "\<not> orch_timeTaken qs now > qs_questionDurationSec qs"
    and "js_index (qs_questions qs) (qs_currentIndex qs) = Some q"
    and "c = (js_Number sel = Finite (of_int (q_correctIndex q)))"
    and "pts = (if c then (if q_points q = 0 then 1 else q_points q) else 0)"
    and "p' = save_to_participant qi sel c pts (orch_timeTaken qs now) p"
  shows "qs_participants (snd (submit_answer_running qs now quizId userId qi sel))
           = map_set userId p' (qs_participants qs)"
    and "take 2 (fst (submit_answer_running qs now quizId userId qi sel))
           = [Emit ToSocket ''answer-result'' (JObject
                [(''questionIndex'', json_of qi), (''correct'', JBool c),
                 (''points'', JNumber (of_int pts)), (''totalScore'', JNumber (of_int (op_score p')))]),
              Emit (ToRoom quizId) ''participant-answered'' (JObject
                [(''userId'', JString userId), (''questionIndex'', json_of qi)])]"
  using assms by (simp_all add: submit_answer_running_def Let_def)

lemma orch_accepted:
  assumes "submit_answer_running qs now quizId userId qi sel
             = (Emit ToSocket ''answer-result'' payload # rest, qs')"
  shows "\<exists>p q c pts. map_of (qs_participants qs) userId = Some p
      \<and> js_index (qs_questions qs) (qs_currentIndex qs) = Some q
      \<and> c = (js_Number sel = Finite (of_int (q_correctIndex q)))
      \<and> pts = (if c then (if q_points q = 0 then 1 else q_points q) else 0)
      \<and> payload = JObject [(''questionIndex'', json_of qi), (''correct'', JBool c),
                            (''points'', JNumber (of_int pts)),
                            (''totalScore'', JNumber (of_int (op_score p + pts)))]
      \<and> (\<exists>p'. map_of (qs_participants qs') userId = Some p'
             \<and> op_score p' = op_score p + pts
             \<and> op_answers p' = op_answers p @
                  [(qi, \<lparr> oa_selectedIndex = sel, oa_isCorrect = c,
                          oa_points = pts, oa_timeTaken = orch_timeTaken qs now \<rparr>)])"
proof -
  have no_reject: "\<not> (Finite (of_int (qs_currentIndex qs)) \<noteq> js_Number qi
     \<or> map_of (qs_participants qs) userId = None
     \<or> (\<exists>p. map_of (qs_participants qs) userId = Some p \<and> map_has qi (op_answers p))
     \<or> orch_timeTaken qs now > qs_questionDurationSec qs
     \<or> js_index (qs_questions qs) (qs_currentIndex qs) = None)"
  proof
    assume rej: "Finite (of_int (qs_currentIndex qs)) \<noteq> js_Number qi
     \<or> map_of (qs_participants qs) userId = None
     \<or> (\<exists>p. map_of (qs_participants qs) userId = Some p \<and> map_has qi (op_answers p))
     \<or> orch_timeTaken qs now > qs_questionDurationSec qs
     \<or> js_index (qs_questions qs) (qs_currentIndex qs) = None"
    from running_rejected[OF rej, of quizId sel] assms show False
      by (auto simp: answer_error_def)
  qed
  then obtain p q where idx: "Finite (of_int (qs_currentIndex qs)) = js_Number qi"
    and p: "map_of (qs_participants qs) userId = Some p"
    and nodup: "\<not> map_has qi (op_answers p)"
    and intime: "\<not> orch_timeTaken qs now > qs_questionDurationSec qs"
    and q: "js_index (qs_questions qs) (qs_currentIndex qs) = Some q"
    by auto
  define c where "c = (js_Number sel = Finite (of_int (q_correctIndex q)))"
  define pts where "pts = (if c then (if q_points q = 0 then 1 else q_points q) else 0)"
  define p' where "p' = save_to_participant qi sel c pts (orch_timeTaken qs now) p"
  note acc = running_accepted[OF idx p nodup intime q c_def pts_def p'_def, of quizId]
  have fresh: "op_answers p' = op_answers p @
                  [(qi, \<lparr> oa_selectedIndex = sel, oa_isCorrect = c,
                          oa_points = pts, oa_timeTaken = orch_timeTaken qs now \<rparr>)]"
    "op_score p' = op_score p + pts"
    using save_to_participant_fresh[OF nodup] by (simp_all add: p'_def)
  have "qs_participants qs' = map_set userId p' (qs_participants qs)"
    using acc(1) assms by simp
  then have found: "map_of (qs_participants qs') userId = Some p'"
    by (simp add: map_set_def update_conv')
  have "payload = JObject [(''questionIndex'', json_of qi), (''correct'', JBool c),
                            (''points'', JNumber (of_int pts)), (''totalScore'', JNumber (of_int (op_score p')))]"
    using acc(2) assms by simp
  then show ?thesis using p q c_def pts_def found fresh by auto
qed

lemma running_in_step:
  assumes "list_all (\<lambda>u. in_step (snd u)) (qs_participants qs)"
  shows "list_all (\<lambda>u. in_step (snd u))
           (qs_participants (snd (submit_answer_running qs now quizId userId qi sel)))"
proof (cases "Finite (of_int (qs_currentIndex qs)) \<noteq> js_Number qi
     \<or> map_of (qs_participants qs) userId = None
     \<or> (\<exists>p. map_of (qs_participants qs) userId = Some p \<and> map_has qi (op_answers p))
     \<or> orch_timeTaken qs now > qs_questionDurationSec qs
     \<or> js_index (qs_questions qs) (qs_currentIndex qs) = None")
  case True
  from running_rejected[OF True, of quizId sel] show ?thesis using assms by auto
next
  case False
  then obtain p q where idx: "Finite (of_int (qs_currentIndex qs)) = js_Number qi"
    and p: "map_of (qs_participants qs) userId = Some p"
    and nodup: "\<not> map_has qi (op_answers p)"
    and intime: "\<not> orch_timeTaken qs now > qs_questionDurationSec qs"
    and q: "js_index (qs_questions qs) (qs_currentIndex qs) = Some q"
    by auto
  define c where "c = (js_Number sel = Finite (of_int (q_correctIndex q)))"
  define pts where "pts = (if c then (if q_points q = 0 then 1 else q_points q) else 0)"
  define p' where "p' = save_to_participant qi sel c pts (orch_timeTaken qs now) p"
  note acc = running_accepted[OF idx p nodup intime q c_def pts_def p'_def, of quizId]
  from p have "(userId, p) \<in> set (qs_participants qs)" by (rule map_of_SomeD)
  then have "in_step p"
    using assms unfolding list_all_iff by force
  then have new: "in_step p'"
    using save_to_participant_fresh[OF nodup, of sel c pts "orch_timeTaken qs now"]
    by (simp add: p'_def in_step_def)
  show ?thesis
    unfolding list_all_iff
  proof
    fix e assume "e \<in> set (qs_participants (snd (submit_answer_running qs now quizId userId qi sel)))"
    then have "e = (userId, p') \<or> e \<in> set (qs_participants qs)"
      unfolding acc(1) map_set_def by (rule alist_update_set)
    then show "in_step (snd e)"
      using new assms unfolding list_all_iff by auto
  qed
qed

lemma all_in_step_lookup:
  assumes "all_in_step orch" and "map_of orch qid = Some qs"
  shows "list_all (\<lambda>u. in_step (snd u)) (qs_participants qs)"
proof -
  have "(qid, qs) \<in> set orch" using assms(2) by (rule map_of_SomeD)
  then show ?thesis using assms(1) unfolding all_in_step_def list_all_iff by force
qed

lemma all_in_step_map_set:
  assumes "all_in_step orch" and "list_all (\<lambda>u. in_step (snd u)) (qs_participants qs)"
  shows "all_in_step (map_set qid qs orch)"
  unfolding all_in_step_def list_all_iff map_set_def
proof
  fix e assume "e \<in> set (AList.update qid qs orch)"
  then have "e = (qid, qs) \<or> e \<in> set orch" by (rule alist_update_set)
  then show "\<forall>u \<in> set (qs_participants (snd e)). in_step (snd u)"
    using assms unfolding all_in_step_def list_all_iff by auto
qed

lemma all_in_step_delete:
  assumes "all_in_step orch"
  shows "all_in_step (AList.delete qid orch)"
  unfolding all_in_step_def list_all_iff
proof
  fix e assume "e \<in> set (AList.delete qid orch)"
  then have "e \<in> set orch" by (rule alist_delete_set)
  then show "\<forall>u \<in> set (qs_participants (snd e)). in_step (snd u)"
    using assms unfolding all_in_step_def list_all_iff by auto
qed

lemma submit_answer_in_step:
  assumes "all_in_step orch"
  shows "all_in_step (snd (submit_answer orch now payload))"
proof (cases "ap_questionIndex payload")
  case None
  then show ?thesis using assms by (simp add: submit_answer_def)
next
  case qi: (Some questionIndex)
  show ?thesis
  proof (cases "ap_selectedIndex payload")
    case None
    then show ?thesis using assms qi by (simp add: submit_answer_def)
  next
    case sel: (Some selectedIndex)
    show ?thesis
    proof (cases "map_of orch (ap_quizId payload)")
      case None
      then show ?thesis using assms qi sel by (simp add: submit_answer_def)
    next
      case (Some qs)
      have "list_all (\<lambda>u. in_step (snd u))
              (qs_participants (snd (submit_answer_running qs now (ap_quizId payload)
                                       (ap_userId payload) questionIndex selectedIndex)))"
        by (rule running_in_step[OF all_in_step_lookup[OF assms Some]])
      then show ?thesis using assms qi sel Some
        by (simp add: submit_answer_def case_prod_unfold Let_def all_in_step_map_set)
    qed
  qed
qed

lemma join_quiz_in_step:
  assumes "all_in_step orch"
  shows "all_in_step (snd (join_quiz orch socketId payload))"
proof (cases "jq_quizId payload = [] \<or> jq_userId payload = []")
  case True
  then show ?thesis using assms by (auto simp: join_quiz_def)
next
  case False
  let ?qs = "case map_of orch (jq_quizId payload) of None \<Rightarrow> minimal_qstate | Some qs \<Rightarrow> qs"
  have "list_all (\<lambda>u. in_step (snd u)) (qs_participants ?qs)"
    using all_in_step_lookup[OF assms] by (auto simp: minimal_qstate_def split: option.splits)
  moreover have "in_step (fresh_participant socketId)"
    by (simp add: in_step_def fresh_participant_def)
  ultimately have "list_all (\<lambda>u. in_step (snd u))
      (map_set (jq_userId payload) (fresh_participant socketId) (qs_participants ?qs))"
    unfolding list_all_iff map_set_def by (auto dest: alist_update_set)
  then show ?thesis using False assms
    by (simp add: join_quiz_def Let_def all_in_step_map_set)
qed

lemma leave_quiz_in_step:
  assumes "all_in_step orch"
  shows "all_in_step (leave_quiz orch payload)"
proof (cases "map_of orch (jq_quizId payload)")
  case None
  then show ?thesis using assms by (simp add: leave_quiz_def)
next
  case (Some qs)
  have "list_all (\<lambda>u. in_step (snd u)) (AList.delete (jq_userId payload) (qs_participants qs))"
    using all_in_step_lookup[OF assms Some] unfolding list_all_iff by (auto dest: alist_delete_set)
  then show ?thesis using assms Some
    by (simp add: leave_quiz_def all_in_step_map_set)
qed

lemma socket_disconnect_in_step:
  "all_in_step orch \<Longrightarrow> all_in_step (socket_disconnect orch sid)"
  unfolding all_in_step_def socket_disconnect_def list_all_iff by auto

lemma finalizeQuiz_in_step:
  "all_in_step orch \<Longrightarrow> all_in_step (snd (finalizeQuiz orch qid))"
  by (auto simp: finalizeQuiz_def Let_def all_in_step_delete split: option.splits)

lemma advanceTo_in_step:
  assumes "all_in_step orch"
  shows "all_in_step (snd (advanceTo orch qid now idx))"
proof (cases "map_of orch qid")
  case None
  then show ?thesis using assms by (simp add: advanceTo_def)
next
  case (Some qs)
  note ps = all_in_step_lookup[OF assms Some]
  show ?thesis
  proof (cases "js_index (qs_questions qs) idx")
    case None
    have "all_in_step (map_set qid (qs\<lparr> qs_currentIndex := idx, qs_questionStartAt := Some now \<rparr>) orch)"
      using assms ps by (simp add: all_in_step_map_set)
    then show ?thesis using assms Some None
      by (simp add: advanceTo_def Let_def finalizeQuiz_in_step)
  next
    case (Some q)
    then show ?thesis using assms \<open>map_of orch qid = Some qs\<close> ps
      by (simp add: advanceTo_def Let_def all_in_step_map_set)
  qed
qed

lemma endHandle_in_step:
  assumes "all_in_step orch"
  shows "all_in_step (snd (endHandle orch qid))"
proof (cases "map_of orch qid")
  case None
  then show ?thesis using assms by (simp add: endHandle_def)
next
  case (Some qs)
  note ps = all_in_step_lookup[OF assms Some]
  have a: "all_in_step (map_set qid (qs\<lparr> qs_endHandle := None \<rparr>) orch)"
    using assms ps by (simp add: all_in_step_map_set)
  have b: "\<And>n. all_in_step (map_set qid (qs\<lparr> qs_endHandle := None, qs_gapTimer := Some n \<rparr>) orch)"
    using assms ps by (simp add: all_in_step_map_set)
  show ?thesis using assms Some finalizeQuiz_in_step[OF a, of qid] b
    by (auto simp: endHandle_def Let_def case_prod_unfold split: option.splits)
qed

lemma gapTimer_in_step:
  assumes "all_in_step orch"
  shows "all_in_step (snd (gapTimer orch qid now))"
proof (cases "map_of orch qid")
  case None
  then show ?thesis using assms by (simp add: gapTimer_def)
next
  case (Some qs)
  have "all_in_step (map_set qid (qs\<lparr> qs_gapTimer := None \<rparr>) orch)"
    using assms all_in_step_lookup[OF assms Some] by (simp add: all_in_step_map_set)
  then show ?thesis using assms Some
    by (auto simp: gapTimer_def advanceTo_in_step split: option.splits)
qed

lemma perSecond_in_step:
  assumes "all_in_step orch"
  shows "all_in_step (snd (perSecond orch qid))"
proof (cases "map_of orch qid")
  case None
  then show ?thesis using assms by (simp add: perSecond_def)
next
  case (Some qs)
  have "\<And>r. all_in_step (map_set qid (qs\<lparr> qs_remaining := r \<rparr>) orch)"
    using assms all_in_step_lookup[OF assms Some] by (simp add: all_in_step_map_set)
  then show ?thesis using assms Some
    by (auto simp: perSecond_def Let_def split: option.splits)
qed

lemma carried_participants:
  "e \<in> set (foldl (\<lambda>m p. map_set (p_user p)
                  \<lparr> op_socketId = None, op_answers = [], op_score = p_score p,
                    op_correctAnswers = p_correctAnswers p, op_timeSpent = p_timeSpent p,
                    op_isCompleted = p_isCompleted p \<rparr> m) m0 ps)
   \<Longrightarrow> e \<in> set m0 \<or> (\<exists>p \<in> set ps. fst e = p_user p \<and> op_answers (snd e) = []
                                 \<and> op_score (snd e) = p_score p)"
proof (induction ps arbitrary: m0)
  case Nil
  then show ?case by simp
next
  case (Cons p ps)
  from Cons.IH[OF Cons.prems[simplified]] show ?case
    unfolding map_set_def by (auto dest: alist_update_set)
qed

lemma initial_qstate_participants:
  "\<forall>e \<in> set (qs_participants (initial_qstate quizDoc)).
      op_answers (snd e) = []
      \<and> (\<exists>sp \<in> set (quiz_participants quizDoc). p_user sp = fst e \<and> op_score (snd e) = p_score sp)"
  using carried_participants[of _ "[]" "quiz_participants quizDoc"]
  by (fastforce simp: initial_qstate_def)

lemma startQuizNow_in_step:
  assumes "stored_scores_zero db" and "all_in_step orch"
  shows "all_in_step (case startQuizNow db orch now quizId of
                        Inl err \<Rightarrow> orch | Inr (effects, orch') \<Rightarrow> orch')"
proof (cases "db quizId")
  case None
  then show ?thesis using assms by (simp add: startQuizNow_def)
next
  case (Some quizDoc)
  have "list_all (\<lambda>u. in_step (snd u)) (qs_participants (initial_qstate quizDoc))"
    unfolding list_all_iff
  proof
    fix e assume e: "e \<in> set (qs_participants (initial_qstate quizDoc))"
    with initial_qstate_participants[of quizDoc] obtain sp where
      "op_answers (snd e) = []" "sp \<in> set (quiz_participants quizDoc)" "op_score (snd e) = p_score sp"
      by blast
    moreover have "p_score sp = 0"
      using assms(1) Some \<open>sp \<in> set (quiz_participants quizDoc)\<close>
      unfolding stored_scores_zero_def list_all_iff by blast
    ultimately show "in_step (snd e)" by (simp add: in_step_def)
  qed
  then have "all_in_step (map_set quizId (initial_qstate quizDoc) orch)"
    using assms(2) by (simp add: all_in_step_map_set)
  from advanceTo_in_step[OF this, of quizId now 0] show ?thesis using assms(2) Some
    by (simp add: startQuizNow_def Let_def case_prod_unfold)
qed

lemma handle_event_in_step:
  assumes "stored_scores_zero db" and "all_in_step orch"
  shows "all_in_step (handle_event db orch ev)"
  using assms
  by (cases ev)
     (simp_all add: join_quiz_in_step submit_answer_in_step leave_quiz_in_step socket_disconnect_in_step
        startQuizNow_in_step endHandle_in_step gapTimer_in_step perSecond_in_step)

lemma orchestrate_in_step:
  assumes "stored_scores_zero db"
  shows "all_in_step orch \<Longrightarrow> all_in_step (orchestrate db orch events)"
  unfolding orchestrate_def
  by (induction events arbitrary: orch) (simp_all add: handle_event_in_step[OF assms])

text \<open>
  Claim C1, as amended. For an accepted submission the handlers record as correctness
  whether the selected index is the question's \<open>correctIndex\<close>: over HTTP by \<open>===\<close>
  with the stored number, on the socket by equality of the two \<open>Number(...)\<close>
  conversions, which for a selected index that is a number is equality with
  \<open>correctIndex\<close>. The points awarded are zero for a wrong answer; for a right answer
  they are the question's point value over HTTP, and on the socket the point value
  with 0 replaced by the default 1 (\<open>question.points || 1\<close>). The new ledger entry
  carries these values and the time the server measured, and the score grows by
  exactly the points awarded. Over HTTP every participant record starts with score 0
  and no answers (\<open>enterQuiz\<close>), so that after any series of \<open>enterQuiz\<close> and
  \<open>submitAnswer\<close> requests on quizzes that had no participants every score is the sum
  of the points in the ledger. In the orchestrator \<open>join-quiz\<close> creates such a record
  too, but \<open>startQuizNow\<close> creates the record of a stored participant with an empty
  ledger and the stored score; when the stored scores are all 0 every score is the sum
  of the ledger points after any series of events.
\<close>

theorem scoring_of_accepted_answers:
  "(submitAnswer db now req = (AnswerAccepted c pts tot, db') \<longrightarrow>
      (\<exists>qz p q sel. db (r_quizId req) = Some qz
         \<and> find (\<lambda>p. p_user p = r_userId req) (quiz_participants qz) = Some p
         \<and> find (\<lambda>q. q_id q = r_questionId req) (quiz_questions qz) = Some q
         \<and> castNumber (r_selectedIndex req) = Cast sel
         \<and> c = (r_selectedIndex req = Some (JNum (of_int (q_correctIndex q))))
         \<and> pts = (if c then q_points q else 0)
         \<and> tot = p_score p + pts
         \<and> (\<exists>qz' p'. db' = save db qz'
               \<and> find (\<lambda>p. p_user p = r_userId req) (quiz_participants qz') = Some p'
               \<and> p_score p' = tot
               \<and> (\<exists>e. p_answers p' = p_answers p @ [e] \<and> a_questionId e = r_questionId req
                      \<and> a_selectedIndex e = sel \<and> a_correct e = c \<and> a_points e = pts
                      \<and> a_timeTaken e = Math_round (elapsed_seconds qz now)))))
   \<and> (store_reconciled db \<longrightarrow>
         store_reconciled (snd (enterQuiz db userFound newId entering))
         \<and> store_reconciled (snd (submitAnswer db now req)))
   \<and> ((\<forall>k qz. db0 k = Some qz \<longrightarrow> quiz_participants qz = [])
         \<longrightarrow> store_reconciled (serve db0 requests))
   \<and> (submit_answer_running qs now' quizId userId qi selected
          = (Emit ToSocket ''answer-result'' payload # rest, qs') \<longrightarrow>
      (\<exists>op oq oc opts. map_of (qs_participants qs) userId = Some op
         \<and> js_index (qs_questions qs) (qs_currentIndex qs) = Some oq
         \<and> (\<forall>s. selected = JNum s \<longrightarrow> oc = (s = of_int (q_correctIndex oq)))
         \<and> opts = (if oc then (if q_points oq = 0 then 1 else q_points oq) else 0)
         \<and> payload = JObject [(''questionIndex'', json_of qi), (''correct'', JBool oc),
                               (''points'', JNumber (of_int opts)),
                               (''totalScore'', JNumber (of_int (op_score op + opts)))]
         \<and> (\<exists>op'. map_of (qs_participants qs') userId = Some op'
                \<and> op_score op' = op_score op + opts
                \<and> op_answers op' = op_answers op @
                     [(qi, \<lparr> oa_selectedIndex = selected, oa_isCorrect = oc,
                             oa_points = opts, oa_timeTaken = orch_timeTaken qs now' \<rparr>)])))
   \<and> (\<forall>e \<in> set (qs_participants (initial_qstate quizDoc)).
         op_answers (snd e) = []
         \<and> (\<exists>sp \<in> set (quiz_participants quizDoc). p_user sp = fst e \<and> op_score (snd e) = p_score sp))
   \<and> (stored_scores_zero sdb \<and> all_in_step orch \<longrightarrow> all_in_step (orchestrate sdb orch events))"
proof -
  have socket: "\<exists>op oq oc opts. map_of (qs_participants qs) userId = Some op
         \<and> js_index (qs_questions qs) (qs_currentIndex qs) = Some oq
         \<and> (\<forall>s. selected = JNum s \<longrightarrow> oc = (s = of_int (q_correctIndex oq)))
         \<and> opts = (if oc then (if q_points oq = 0 then 1 else q_points oq) else 0)
         \<and> payload = JObject [(''questionIndex'', json_of qi), (''correct'', JBool oc),
                               (''points'', JNumber (of_int opts)),
                               (''totalScore'', JNumber (of_int (op_score op + opts)))]
         \<and> (\<exists>op'. map_of (qs_participants qs') userId = Some op'
                \<and> op_score op' = op_score op + opts
                \<and> op_answers op' = op_answers op @
                     [(qi, \<lparr> oa_selectedIndex = selected, oa_isCorrect = oc,
                             oa_points = opts, oa_timeTaken = orch_timeTaken qs now' \<rparr>)])"
    if acc: "submit_answer_running qs now' quizId userId qi selected
          = (Emit ToSocket ''answer-result'' payload # rest, qs')"
  proof -
    from orch_accepted[OF acc] obtain op oq oc opts where
      "map_of (qs_participants qs) userId = Some op"
      "js_index (qs_questions qs) (qs_currentIndex qs) = Some oq"
      "oc = (js_Number selected = Finite (of_int (q_correctIndex oq)))"
      "opts = (if oc then (if q_points oq = 0 then 1 else q_points oq) else 0)"
      "payload = JObject [(''questionIndex'', json_of qi), (''correct'', JBool oc),
                               (''points'', JNumber (of_int opts)),
                               (''totalScore'', JNumber (of_int (op_score op + opts)))]"
      "\<exists>op'. map_of (qs_participants qs') userId = Some op'
                \<and> op_score op' = op_score op + opts
                \<and> op_answers op' = op_answers op @
                     [(qi, \<lparr> oa_selectedIndex = selected, oa_isCorrect = oc,
                             oa_points = opts, oa_timeTaken = orch_timeTaken qs now' \<rparr>)]"
      by blast
    moreover from this have "\<forall>s. selected = JNum s \<longrightarrow> oc = (s = of_int (q_correctIndex oq))"
      by simp
    ultimately show ?thesis by blast
  qed
  show ?thesis
    using http_accepted[of db now req c pts tot db'] enterQuiz_reconciled[of db userFound newId entering]
      submitAnswer_reconciled[of db now req]
      serve_reconciled[OF no_participants_reconciled, of db0 requests]
      socket initial_qstate_participants[of quizDoc] orchestrate_in_step[of sdb orch events]
    by blast
qed

text \<open>
  The claim as it was stated fails in four ways. On the socket a right answer to a
  question configured with zero points is awarded one point. When \<open>startQuizNow\<close> is
  called for a quiz in which alice has a stored score of 10 (from an answer over
  HTTP), her record in the orchestrator starts with score 10 and no answers, and after
  one accepted answer her score is 20 while her ledger sums to 10. Over HTTP the
  selected index \<open>"1"\<close> (a string) for a question whose correct index is 1 is recorded
  as the number 1 and as incorrect. On the socket the selected index \<open>null\<close> for a
  question whose correct index is 0 is recorded as correct, with the points.
\<close>

theorem scoring_counterexample:
  "js_index (qs_questions (sample_qstate\<lparr> qs_currentIndex := 1 \<rparr>)) 1 = Some question1
   \<and> q_points question1 = 0
   \<and> fst (submit_answer [(''quiz1'', sample_qstate\<lparr> qs_currentIndex := 1 \<rparr>)] 101000
            \<lparr> ap_quizId = ''quiz1'', ap_userId = ''alice'', ap_questionIndex = Some (JNum 1),
              ap_selectedIndex = Some (JNum 2), ap_timestampClient = None \<rparr>)
       = [Emit ToSocket ''answer-result'' (JObject
            [(''questionIndex'', JNumber 1), (''correct'', JBool True),
             (''points'', JNumber 1), (''totalScore'', JNumber 1)]),
          Emit (ToRoom ''quiz1'') ''participant-answered'' (JObject
            [(''userId'', JString ''alice''), (''questionIndex'', JNumber 1)])]
   \<and> map (\<lambda>p. (p_user p, p_score p, map a_points (p_answers p)))
        (quiz_participants (the (answered_over_http ''quiz1'')))
       = [(''alice'', 10, [10]), (''bob'', 0, [])]
   \<and> score_and_ledger (orchestrate answered_over_http [] [StartQuizNow 120000 ''quiz1'']) ''quiz1'' ''alice''
       = Some (10, [])
   \<and> score_and_ledger carried_over ''quiz1'' ''alice'' = Some (20, [10])
   \<and> q_correctIndex question0 = 1
   \<and> (let decided = submitAnswer_on sample_quiz 103000 (sample_request\<lparr> r_selectedIndex := Some (JStr ''1'') \<rparr>)
       in fst decided = AnswerAccepted False 0 0
        \<and> map (\<lambda>p. (p_user p, map (\<lambda>a. (a_questionId a, a_selectedIndex a, a_correct a, a_points a))
                                  (p_answers p)))
             (quiz_participants (the (snd decided)))
           = [(''alice'', [(''q0'', Some (Finite 1), False, 0)]), (''bob'', [])])
   \<and> (let asked = sample_qstate\<lparr> qs_questions := [question0\<lparr> q_correctIndex := 0 \<rparr>, question1] \<rparr>;
           answered = submit_answer [(''quiz1'', asked)] 103000
                        ((sample_payload (JNum 0))\<lparr> ap_selectedIndex := Some JsNull \<rparr>)
       in fst answered =
            [Emit ToSocket ''answer-result'' (JObject
               [(''questionIndex'', JNumber 0), (''correct'', JBool True),
                (''points'', JNumber 10), (''totalScore'', JNumber 10)]),
             Emit (ToRoom ''quiz1'') ''participant-answered'' (JObject
               [(''userId'', JString ''alice''), (''questionIndex'', JNumber 0)])]
        \<and> map (\<lambda>a. (fst a, oa_selectedIndex (snd a), oa_isCorrect (snd a), oa_points (snd a)))
             (op_answers (the (map_of (qs_participants (the (map_of (snd answered) ''quiz1''))) ''alice'')))
           = [(JNum 0, JsNull, True, 10)])"
  by (simp add: sample_defs sample_payload_def submit_answer_def submit_answer_running_def Let_def
        js_index_def map_has_def orch_timeTaken_def orch_elapsed_def save_to_participant_def
        map_set_def SAVE_INTERVAL_def answered_over_http_def carried_over_def orchestrate_def
        score_and_ledger_def startQuizNow_def advanceTo_def initial_qstate_def
        submitAnswer_def submitAnswer_on_def elapsed_seconds_def record_answer_def Math_round_def
        save_def mirror_answer_def ensure_pd_def clone_participant_def cloned_number_def number_defs)

theorem scoring_of_accepted_answers_witness:
  "(\<exists>q. find (\<lambda>q. q_id q = ''q0'') (quiz_questions sample_quiz) = Some q \<and> q_points q = 10)
   \<and> list_all reconciled
        (quiz_participants (the (snd (submitAnswer sample_db 114000 sample_request) ''quiz1'')))
   \<and> list_all reconciled
        (quiz_participants (the (snd (enterQuiz sample_db True ''p3''
                                        \<lparr> e_quizId = ''quiz1'', e_userId = ''carol'' \<rparr>) ''quiz1'')))
   \<and> list_all reconciled (quiz_participants (the (serve open_quiz_db alice_enters_and_answers ''quiz1'')))
   \<and> map (\<lambda>p. (p_user p, p_score p, map a_points (p_answers p)))
        (quiz_participants (the (serve open_quiz_db alice_enters_and_answers ''quiz1'')))
       = [(''alice'', 10, [10])]
   \<and> (\<exists>p'. map_of (qs_participants
                (snd (submit_answer_running sample_qstate 114000 ''quiz1'' ''alice'' (JNum 0) (JNum 1))))
              ''alice'' = Some p' \<and> op_score p' = 10)
   \<and> list_all (\<lambda>e. op_answers (snd e) = []) (qs_participants (initial_qstate sample_quiz))
   \<and> all_in_step (orchestrate sample_db [] alice_joins_and_answers)
   \<and> score_and_ledger (orchestrate sample_db [] alice_joins_and_answers) ''quiz1'' ''alice''
       = Some (10, [10])"
proof -
  let ?db' = "snd (submitAnswer sample_db 114000 sample_request)"
  let ?entered = "snd (enterQuiz sample_db True ''p3'' \<lparr> e_quizId = ''quiz1'', e_userId = ''carol'' \<rparr>)"
  let ?served = "serve open_quiz_db alice_enters_and_answers"
  let ?run = "submit_answer_running sample_qstate 114000 ''quiz1'' ''alice'' (JNum 0) (JNum 1)"
  let ?payload = "JObject [(''questionIndex'', JNumber 0), (''correct'', JBool True),
                           (''points'', JNumber 10), (''totalScore'', JNumber 10)]"
  let ?rest = "[Emit (ToRoom ''quiz1'') ''participant-answered'' (JObject
                  [(''userId'', JString ''alice''), (''questionIndex'', JNumber 0)])]"
  note T = scoring_of_accepted_answers[of sample_db 114000 sample_request True 10 10 ?db'
      True "''p3''" "\<lparr> e_quizId = ''quiz1'', e_userId = ''carol'' \<rparr>"
      open_quiz_db alice_enters_and_answers
      sample_qstate 114000 "''quiz1''" "''alice''" "JNum 0" "JNum 1" ?payload ?rest "snd ?run"
      sample_quiz sample_db "[]" alice_joins_and_answers]
  have h1: "submitAnswer sample_db 114000 sample_request = (AnswerAccepted True 10 10, ?db')"
    by (simp add: prod_eq_iff sample_defs submitAnswer_def submitAnswer_on_def Let_def
          elapsed_seconds_def record_answer_def Math_round_def)
  have h2: "store_reconciled sample_db"
    by (simp add: store_reconciled_def reconciled_def sample_defs)
  have h3: "\<forall>k qz. open_quiz_db k = Some qz \<longrightarrow> quiz_participants qz = []"
    by (simp add: open_quiz_db_def)
  have h4: "?run = (Emit ToSocket ''answer-result'' ?payload # ?rest, snd ?run)"
    by (simp add: prod_eq_iff sample_defs submit_answer_running_def Let_def js_index_def
        map_has_def orch_timeTaken_def orch_elapsed_def save_to_participant_def map_set_def
        SAVE_INTERVAL_def)
  have h6: "stored_scores_zero sample_db \<and> all_in_step []"
    by (simp add: stored_scores_zero_def all_in_step_def sample_defs)
  have k1: "?db' ''quiz1'' = Some (the (?db' ''quiz1''))"
    by (simp add: sample_defs submitAnswer_def submitAnswer_on_def Let_def
          elapsed_seconds_def record_answer_def Math_round_def save_def)
  have k2: "?entered ''quiz1'' = Some (the (?entered ''quiz1''))"
    by (simp add: sample_defs enterQuiz_def save_def)
  have served: "map (\<lambda>p. (p_user p, p_score p, map a_points (p_answers p)))
        (quiz_participants (the (?served ''quiz1''))) = [(''alice'', 10, [10])]"
    and k3: "?served ''quiz1'' = Some (the (?served ''quiz1''))"
    by (simp_all add: open_quiz_db_def alice_enters_and_answers_def sample_defs enterQuiz_def
          submitAnswer_def submitAnswer_on_def Let_def elapsed_seconds_def record_answer_def
          Math_round_def save_def)
  have ledger: "score_and_ledger (orchestrate sample_db [] alice_joins_and_answers) ''quiz1'' ''alice''
       = Some (10, [10])"
    by (simp add: alice_joins_and_answers_def orchestrate_def score_and_ledger_def startQuizNow_def
          advanceTo_def initial_qstate_def join_quiz_def submit_answer_def submit_answer_running_def
          Let_def js_index_def map_has_def orch_timeTaken_def orch_elapsed_def
          save_to_participant_def map_set_def SAVE_INTERVAL_def mirror_answer_def ensure_pd_def
          clone_participant_def sample_payload_def sample_defs)
  from T h1 obtain q where "find (\<lambda>q. q_id q = r_questionId sample_request) (quiz_questions sample_quiz) = Some q"
      "(10::int) = (if True then q_points q else 0)"
    by (auto simp: sample_db_def sample_request_def)
  then have w1: "\<exists>q. find (\<lambda>q. q_id q = ''q0'') (quiz_questions sample_quiz) = Some q \<and> q_points q = 10"
    by (auto simp: sample_request_def)
  from T h2 have "store_reconciled ?db'" "store_reconciled ?entered"
    by blast+
  then have w2: "list_all reconciled (quiz_participants (the (?db' ''quiz1'')))"
    and w3: "list_all reconciled (quiz_participants (the (?entered ''quiz1'')))"
    using k1 k2 unfolding store_reconciled_def by blast+
  from T h3 have "store_reconciled ?served" by blast
  then have w4: "list_all reconciled (quiz_participants (the (?served ''quiz1'')))"
    using k3 unfolding store_reconciled_def by blast
  from T h4 obtain op oq op' where "map_of (qs_participants sample_qstate) ''alice'' = Some op"
     "js_index (qs_questions sample_qstate) (qs_currentIndex sample_qstate) = Some oq"
     "map_of (qs_participants (snd ?run)) ''alice'' = Some op'"
     "op_score op' = op_score op + (if (1::real) = of_int (q_correctIndex oq)
                                     then (if q_points oq = 0 then 1 else q_points oq) else 0)"
    by auto
  then have w5: "\<exists>p'. map_of (qs_participants (snd ?run)) ''alice'' = Some p' \<and> op_score p' = 10"
    by (auto simp: sample_defs js_index_def)
  from T have "\<forall>e \<in> set (qs_participants (initial_qstate sample_quiz)). op_answers (snd e) = []"
    by blast
  then have w6: "list_all (\<lambda>e. op_answers (snd e) = []) (qs_participants (initial_qstate sample_quiz))"
    unfolding list_all_iff by blast
  from T h6 have w7: "all_in_step (orchestrate sample_db [] alice_joins_and_answers)"
    by blast
  from w1 w2 w3 w4 served w5 w6 w7 ledger show ?thesis by blast
qed

subsection \<open>One answer per question\<close>

text \<open>Handled one after the other, HTTP submissions keep the ledger free of a second
  entry for a question: a repeated submission is refused and nothing is written.\<close>

lemma http_duplicate_rejected:
  assumes "db (r_quizId req) = Some qz"
    and "find (\<lambda>p. p_user p = r_userId req) (quiz_participants qz) = Some p"
    and "find (\<lambda>a. a_questionId a = r_questionId req) (p_answers p) = Some a"
  shows "submitAnswer db now req = (QuestionAlreadyAnswered, db)"
  using assms by (simp add: submitAnswer_def submitAnswer_on_def)

lemma http_ledger_distinct:
  assumes "\<forall>p \<in> set (quiz_participants qz). distinct (map a_questionId (p_answers p))"
    and "submitAnswer_on qz now req = (r, Some qz')"
  shows "\<forall>p \<in> set (quiz_participants qz'). distinct (map a_questionId (p_answers p))"
proof
  fix x assume x: "x \<in> set (quiz_participants qz')"
  from assms(2) obtain p sel c pts t where
    p: "find (\<lambda>p. p_user p = r_userId req) (quiz_participants qz) = Some p"
    and fresh: "find (\<lambda>a. a_questionId a = r_questionId req) (p_answers p) = None"
    and w: "qz' = qz\<lparr> quiz_participants :=
             update_first (\<lambda>p. p_user p = r_userId req) (\<lambda>_. record_answer req sel c pts t now p)
               (quiz_participants qz) \<rparr>"
    by (auto simp: submitAnswer_on_def Let_def split: option.splits if_splits cast.splits)
  from x w have "x \<in> set (quiz_participants qz) \<or> x = record_answer req sel c pts t now p"
    using update_first_set[of x "\<lambda>p. p_user p = r_userId req" "\<lambda>_. record_answer req sel c pts t now p" "quiz_participants qz"]
    by auto
  moreover have "p \<in> set (quiz_participants qz)" using find_Some_set[OF p] by simp
  moreover have "distinct (map a_questionId (p_answers (record_answer req sel c pts t now p)))"
    if "distinct (map a_questionId (p_answers p))"
    using that find_None_notin[OF fresh] by (auto simp: record_answer_def)
  ultimately show "distinct (map a_questionId (p_answers x))"
    using assms(1) by blast
qed

text \<open>
  Claim C2 fails on the code in two ways. On the socket, the check of the current
  question converts the index with \<open>Number(questionIndex)\<close>, but the ledger is keyed by
  the value as sent: after an answer under the number \<open>0\<close>, a second answer to the same
  question under the string \<open>"0"\<close> passes both checks, is accepted and scored again, and
  the ledger holds two entries for question 0. Over HTTP, the check and the write are
  two store operations (\<open>findById\<close>, then \<open>save\<close>) and not one conditional update: two
  submissions that both load the quiz before either saves are both decided as
  accepted, although the store already holds the answer when the second one comes to
  write; the same submission made after the first write is refused.
\<close>

theorem duplicate_answers_accepted:
  "(let first = submit_answer [(''quiz1'', sample_qstate)] 103000 (sample_payload (JNum 0));
        second = submit_answer (snd first) 104000 (sample_payload (JStr ''0''))
    in fst first =
         [Emit ToSocket ''answer-result'' (JObject
            [(''questionIndex'', JNumber 0), (''correct'', JBool True),
             (''points'', JNumber 10), (''totalScore'', JNumber 10)]),
          Emit (ToRoom ''quiz1'') ''participant-answered'' (JObject
            [(''userId'', JString ''alice''), (''questionIndex'', JNumber 0)])]
     \<and> fst second =
         [Emit ToSocket ''answer-result'' (JObject
            [(''questionIndex'', JString ''0''), (''correct'', JBool True),
             (''points'', JNumber 10), (''totalScore'', JNumber 20)]),
          Emit (ToRoom ''quiz1'') ''participant-answered'' (JObject
            [(''userId'', JString ''alice''), (''questionIndex'', JString ''0'')])]
     \<and> map (\<lambda>qs. map (\<lambda>e. (fst e, map (\<lambda>a. (js_Number (fst a), oa_points (snd a))) (op_answers (snd e)),
                               op_score (snd e)))
                   (qs_participants qs)) (map snd (snd second))
         = [[(''alice'', [(Finite 0, 10), (Finite 0, 10)], 20)]])
   \<and> (let loadedA = the (sample_db ''quiz1'');
            loadedB = the (sample_db ''quiz1'');
            decidedA = submitAnswer_on loadedA 103000 sample_request;
            dbA = save sample_db (the (snd decidedA));
            decidedB = submitAnswer_on loadedB 103001 sample_request
        in fst decidedA = AnswerAccepted True 10 10
         \<and> fst decidedB = AnswerAccepted True 10 10
         \<and> map (\<lambda>p. (p_user p, map a_questionId (p_answers p))) (quiz_participants (the (dbA ''quiz1'')))
             = [(''alice'', [''q0'']), (''bob'', [])]
         \<and> fst (submitAnswer dbA 103001 sample_request) = QuestionAlreadyAnswered)"
  by (simp add: sample_defs sample_payload_def submit_answer_def submit_answer_running_def Let_def
        js_index_def map_has_def orch_timeTaken_def orch_elapsed_def save_to_participant_def
        map_set_def SAVE_INTERVAL_def number_defs
        submitAnswer_def submitAnswer_on_def elapsed_seconds_def record_answer_def Math_round_def
        save_def mirror_answer_def ensure_pd_def)

subsection \<open>Ranking\<close>

lemma set_insort_cmp: "set (insort_cmp cmp x ys) = insert x (set ys)"
  by (induction ys) auto

lemma mset_insort_cmp: "mset (insort_cmp cmp x ys) = add_mset x (mset ys)"
  by (induction ys) auto

lemma mset_js_sort: "mset (js_sort cmp xs) = mset xs"
  by (induction xs) (auto simp: js_sort_def mset_insort_cmp)

lemma length_js_sort: "length (js_sort cmp xs) = length xs"
  using mset_js_sort[of cmp xs] by (metis size_mset)

lemma sorted_insort_cmp:
  assumes total: "\<And>a b. cmp a b \<le> 0 \<or> cmp b a \<le> 0"
    and trans: "\<And>a b c. cmp a b \<le> 0 \<Longrightarrow> cmp b c \<le> 0 \<Longrightarrow> cmp a c \<le> 0"
  shows "sorted_wrt (\<lambda>a b. cmp a b \<le> 0) ys \<Longrightarrow> sorted_wrt (\<lambda>a b. cmp a b \<le> 0) (insort_cmp cmp x ys)"
proof (induction ys)
  case Nil
  then show ?case by simp
next
  case (Cons y ys)
  show ?case
  proof (cases "cmp x y \<le> 0")
    case True
    then have "\<forall>z \<in> set ys. cmp x z \<le> 0"
      using Cons.prems trans by auto
    then show ?thesis using True Cons.prems by simp
  next
    case False
    then have "cmp y x \<le> 0" using total[of x y] by simp
    then show ?thesis using False Cons by (auto simp: set_insort_cmp)
  qed
qed

lemma sorted_js_sort:
  assumes total: "\<And>a b. cmp a b \<le> 0 \<or> cmp b a \<le> 0"
    and trans: "\<And>a b c. cmp a b \<le> 0 \<Longrightarrow> cmp b c \<le> 0 \<Longrightarrow> cmp a c \<le> 0"
  shows "sorted_wrt (\<lambda>a b. cmp a b \<le> 0) (js_sort cmp xs)"
proof (induction xs)
  case Nil
  then show ?case by (simp add: js_sort_def)
next
  case (Cons x xs)
  have "js_sort cmp (x # xs) = insort_cmp cmp x (js_sort cmp xs)"
    by (simp add: js_sort_def)
  then show ?case using sorted_insort_cmp[OF total trans Cons] by simp
qed

lemma by_score_then_time_le:
  "by_score_then_time a b \<le> 0 \<longleftrightarrow>
     p_score a > p_score b \<or> (p_score a = p_score b \<and> p_timeSpent a \<le> p_timeSpent b)"
  by (auto simp: by_score_then_time_def)

lemma orch_cmp_le:
  "orch_cmp a b \<le> 0 \<longleftrightarrow>
     rk_score a > rk_score b \<or> (rk_score a = rk_score b \<and> rk_timeSpent a \<le> rk_timeSpent b)"
  by (auto simp: orch_cmp_def)

lemma sortedParticipants_sorted:
  "sorted_wrt (\<lambda>a b. p_score a > p_score b \<or> (p_score a = p_score b \<and> p_timeSpent a \<le> p_timeSpent b))
     (sortedParticipants qz)"
proof -
  have "sorted_wrt (\<lambda>a b. by_score_then_time a b \<le> 0) (js_sort by_score_then_time (filter p_paid (quiz_participants qz)))"
    by (rule sorted_js_sort) (auto simp: by_score_then_time_le)
  then show ?thesis by (simp add: sortedParticipants_def by_score_then_time_le)
qed

lemma find_update_first_other:
  assumes "\<And>p. g (f p) = g p" and "k \<noteq> k'"
  shows "find (\<lambda>p. g p = k) (update_first (\<lambda>p. g p = k') f xs) = find (\<lambda>p. g p = k) xs"
  using assms by (induction xs) auto

lemma find_distinct:
  "distinct (map g xs) \<Longrightarrow> x \<in> set xs \<Longrightarrow> find (\<lambda>y. g y = g x) xs = Some x"
  by (induction xs) (auto simp: rev_image_eqI)

lemma set_rank_other:
  "p_id participant \<noteq> k \<Longrightarrow>
   find (\<lambda>p. p_id p = k) (quiz_participants (set_rank now participant index qz))
     = find (\<lambda>p. p_id p = k) (quiz_participants qz)"
  by (simp add: set_rank_def find_update_first_other[where g = p_id])

lemma set_rank_self:
  assumes "find (\<lambda>p. p_id p = p_id x) (quiz_participants qz) = Some x"
  shows "find (\<lambda>p. p_id p = p_id x) (quiz_participants (set_rank now x index qz))
           = Some (ranked_as now index x)"
proof -
  let ?f = "\<lambda>p. p\<lparr> p_isCompleted := True, p_rank := Some (int index + 1),
                     p_endTime := Some (case p_endTime x of None \<Rightarrow> now | Some t \<Rightarrow> t) \<rparr>"
  have "find (\<lambda>p. p_id p = p_id x) (update_first (\<lambda>p. p_id p = p_id x) ?f (quiz_participants qz))
          = Some (?f x)"
    by (rule find_update_first[OF _ assms]) simp
  then show ?thesis by (simp add: set_rank_def ranked_as_def)
qed

lemma rank_fold_other:
  "k \<notin> p_id ` set ps \<Longrightarrow>
   find (\<lambda>p. p_id p = k)
     (quiz_participants (foldl (\<lambda>qz (index, participant). set_rank now participant index qz) qz (enumerate n ps)))
     = find (\<lambda>p. p_id p = k) (quiz_participants qz)"
  by (induction ps arbitrary: n qz) (auto simp: set_rank_other)

lemma rank_fold_ranks:
  assumes "distinct (map p_id ps)"
    and "\<forall>p \<in> set ps. find (\<lambda>y. p_id y = p_id p) (quiz_participants qz) = Some p"
    and "i < length ps"
  shows "find (\<lambda>p. p_id p = p_id (ps ! i))
     (quiz_participants (foldl (\<lambda>qz (index, participant). set_rank now participant index qz) qz (enumerate n ps)))
     = Some (ranked_as now (n + i) (ps ! i))"
  using assms
proof (induction ps arbitrary: n qz i)
  case Nil
  then show ?case by simp
next
  case (Cons x xs)
  let ?qz1 = "set_rank now x n qz"
  have x: "find (\<lambda>y. p_id y = p_id x) (quiz_participants qz) = Some x"
    using Cons.prems(2) by simp
  have notin: "p_id x \<notin> p_id ` set xs" using Cons.prems(1) by auto
  show ?case
  proof (cases i)
    case 0
    then show ?thesis
      using rank_fold_other[OF notin, of now ?qz1 "Suc n"] set_rank_self[OF x, of now n]
      by simp
  next
    case (Suc j)
    have d: "distinct (map p_id xs)" using Cons.prems(1) by simp
    have f: "\<forall>p \<in> set xs. find (\<lambda>y. p_id y = p_id p) (quiz_participants ?qz1) = Some p"
    proof
      fix p assume p: "p \<in> set xs"
      then have "p_id x \<noteq> p_id p" using notin by auto
      then show "find (\<lambda>y. p_id y = p_id p) (quiz_participants ?qz1) = Some p"
        using Cons.prems(2) p by (simp add: set_rank_other)
    qed
    have j: "j < length xs" using Cons.prems(3) Suc by simp
    from Cons.IH[OF d f j, of "Suc n"] show ?thesis using Suc by simp
  qed
qed

lemma endQuizSession_ranks:
  assumes "db quizId = Some qz"
    and "distinct (map p_id (quiz_participants qz))"
    and "i < length (sortedParticipants qz)"
  shows "\<exists>final. fst (snd (endQuizSession db sessions now quizId)) quizId = Some final
      \<and> \<not> quiz_isLive final \<and> quiz_isCompleted final
      \<and> find (\<lambda>p. p_id p = p_id (sortedParticipants qz ! i)) (quiz_participants final)
           = Some (ranked_as now i (sortedParticipants qz ! i))"
proof -
  let ?ps = "sortedParticipants qz"
  have ms: "mset ?ps = mset (filter p_paid (quiz_participants qz))"
    by (simp add: sortedParticipants_def mset_js_sort)
  then have sub: "set ?ps \<subseteq> set (quiz_participants qz)"
    by (metis filter_is_subset set_mset_mset)
  have "mset (map p_id ?ps) = mset (map p_id (filter p_paid (quiz_participants qz)))"
    using ms by (metis mset_map)
  moreover have "distinct (map p_id (filter p_paid (quiz_participants qz)))"
    using assms(2) by (rule distinct_map_filter)
  ultimately have d: "distinct (map p_id ?ps)"
    by (metis mset_eq_imp_distinct_iff)
  have f: "\<forall>p \<in> set ?ps. find (\<lambda>y. p_id y = p_id p) (quiz_participants qz) = Some p"
    using sub find_distinct[OF assms(2)] by blast
  from rank_fold_ranks[OF d f assms(3), of now 0]
  show ?thesis using assms(1)
    by (simp add: endQuizSession_def Let_def)
qed

lemma map_enumerate_snd:
  "(\<And>x i. g (f x i) = h x) \<Longrightarrow> map (\<lambda>(i, x). g (f x i)) (enumerate n xs) = map h xs"
  by (induction xs arbitrary: n) auto

lemma map_enumerate_fst:
  "(\<And>x i. g (f x i) = k i) \<Longrightarrow> map (\<lambda>(i, x). g (f x i)) (enumerate n xs) = map k [n..<n + length xs]"
  by (induction xs arbitrary: n) (auto simp: upt_rec)

lemma map_map_index:
  "(\<And>x i. g (f x i) = h x) \<Longrightarrow> map g (map_index f xs) = map h xs"
  using map_enumerate_snd[of g f h 0 xs] by (simp add: map_index_def case_prod_unfold comp_def)

lemma map_index_indices:
  "(\<And>x i. g (f x i) = k i) \<Longrightarrow> map g (map_index f xs) = map k [0..<length xs]"
  using map_enumerate_fst[of g f k 0 xs] by (simp add: map_index_def case_prod_unfold comp_def)

lemma participantsArr_unranked:
  "map (\<lambda>p. p\<lparr> rk_rank := None \<rparr>) (participantsArr qs)
     = js_sort orch_cmp (map in_ranking (qs_participants qs))"
proof -
  have eq: "(\<lambda>(userId, p). \<lparr> rk_user = userId, rk_score = op_score p,
                                 rk_correctAnswers = op_correctAnswers p,
                                 rk_timeSpent = op_timeSpent p, rk_rank = None \<rparr>) = in_ranking"
    by (auto simp: in_ranking_def fun_eq_iff)
  have "\<forall>p \<in> set (js_sort orch_cmp (map in_ranking (qs_participants qs))). rk_rank p = None"
    using mset_js_sort[of orch_cmp "map in_ranking (qs_participants qs)"]
    by (metis (no_types, lifting) imageE in_ranking_def list.set_map ranked.select_convs(5) set_mset_mset)
  then have "map (\<lambda>p. p\<lparr> rk_rank := None \<rparr>) (js_sort orch_cmp (map in_ranking (qs_participants qs)))
        = js_sort orch_cmp (map in_ranking (qs_participants qs))"
    by (simp add: map_idI)
  then show ?thesis
    unfolding participantsArr_def eq
    by (simp add: map_map_index[where h = "\<lambda>p. p\<lparr> rk_rank := None \<rparr>"])
qed

lemma participantsArr_ranks:
  "map rk_rank (participantsArr qs) = map (\<lambda>i. Some (int i + 1)) [0..<length (qs_participants qs)]"
  unfolding participantsArr_def
  by (simp add: map_index_indices[where k = "\<lambda>i. Some (int i + 1)"] length_js_sort)

lemma participantsArr_sorted:
  "sorted_wrt (\<lambda>a b. rk_score a > rk_score b \<or> (rk_score a = rk_score b \<and> rk_timeSpent a \<le> rk_timeSpent b))
     (participantsArr qs)"
proof -
  let ?R = "\<lambda>a b. rk_score a > rk_score b \<or> (rk_score a = rk_score b \<and> rk_timeSpent a \<le> rk_timeSpent b)"
  have "sorted_wrt (\<lambda>a b. orch_cmp a b \<le> 0) (js_sort orch_cmp (map in_ranking (qs_participants qs)))"
    by (rule sorted_js_sort) (auto simp: orch_cmp_le)
  then have "sorted_wrt ?R (map (\<lambda>p. p\<lparr> rk_rank := None \<rparr>) (participantsArr qs))"
    by (simp add: participantsArr_unranked orch_cmp_le)
  then show ?thesis by (simp add: sorted_wrt_map)
qed

lemma rank_example_scheduler:
  "map (\<lambda>p. (p_user p, p_score p, p_timeSpent p, p_rank p, p_isCompleted p))
     (quiz_participants (the (fst (snd (endQuizSession (sample_db(''quiz1'' \<mapsto> rank_quiz)) [] 500000 ''quiz1'')) ''quiz1'')))
   = [(''u1'', 50, 10, Some 3, True), (''u2'', 80, 5, Some 1, True),
      (''u3'', 80, 8, Some 2, True), (''u4'', 30, 20, Some 4, True)]"
  by (simp add: endQuizSession_def sortedParticipants_def js_sort_def by_score_then_time_def
        set_rank_def rank_quiz_def scored_def sample_defs Let_def enumerate_eq_zip upt_rec)

lemma rank_example_orchestrator:
  "map (\<lambda>p. (rk_user p, rk_score p, rk_timeSpent p, rk_rank p)) (participantsArr rank_qstate)
   = [(''u2'', 80, 5, Some 1), (''u3'', 80, 8, Some 2), (''u1'', 50, 10, Some 3), (''u4'', 30, 20, Some 4)]"
  by (simp add: participantsArr_def js_sort_def orch_cmp_def map_index_def rank_qstate_def
        in_memory_def sample_defs)

text \<open>
  Claim C4. Both finalizers sort by score, highest first, and among equal scores by
  time spent, lowest first, and the rank is the position in that order counted from 1.
  For the scheduler's \<open>endQuizSession\<close>: the sorted list is a rearrangement of the paid
  participants in that order, and the participant at position \<open>i\<close> is stored completed
  with rank \<open>i + 1\<close> (participant ids being distinct). For the orchestrator's
  \<open>finalizeQuiz\<close>: the array is a rearrangement of the in-memory participants in that
  order with ranks 1, 2, 3, ... . With scores 50, 80, 80, 30 and times 10, 5, 8, 20 the
  ranks are 3, 1, 2, 4 in both.
\<close>

theorem rank_ordering:
  "sorted_wrt (\<lambda>a b. p_score a > p_score b \<or> (p_score a = p_score b \<and> p_timeSpent a \<le> p_timeSpent b))
     (sortedParticipants qz)
   \<and> mset (sortedParticipants qz) = mset (filter p_paid (quiz_participants qz))
   \<and> (db quizId = Some qz \<and> distinct (map p_id (quiz_participants qz)) \<and> i < length (sortedParticipants qz)
        \<longrightarrow> (\<exists>final. fst (snd (endQuizSession db sessions now quizId)) quizId = Some final
              \<and> \<not> quiz_isLive final \<and> quiz_isCompleted final
              \<and> find (\<lambda>p. p_id p = p_id (sortedParticipants qz ! i)) (quiz_participants final)
                   = Some (ranked_as now i (sortedParticipants qz ! i))))
   \<and> sorted_wrt (\<lambda>a b. rk_score a > rk_score b \<or> (rk_score a = rk_score b \<and> rk_timeSpent a \<le> rk_timeSpent b))
        (participantsArr qs)
   \<and> mset (map (\<lambda>p. p\<lparr> rk_rank := None \<rparr>) (participantsArr qs)) = mset (map in_ranking (qs_participants qs))
   \<and> map rk_rank (participantsArr qs) = map (\<lambda>i. Some (int i + 1)) [0..<length (qs_participants qs)]
   \<and> map (\<lambda>p. (p_user p, p_score p, p_timeSpent p, p_rank p, p_isCompleted p))
        (quiz_participants (the (fst (snd (endQuizSession (sample_db(''quiz1'' \<mapsto> rank_quiz)) [] 500000 ''quiz1'')) ''quiz1'')))
      = [(''u1'', 50, 10, Some 3, True), (''u2'', 80, 5, Some 1, True),
         (''u3'', 80, 8, Some 2, True), (''u4'', 30, 20, Some 4, True)]
   \<and> map (\<lambda>p. (rk_user p, rk_score p, rk_timeSpent p, rk_rank p)) (participantsArr rank_qstate)
      = [(''u2'', 80, 5, Some 1), (''u3'', 80, 8, Some 2), (''u1'', 50, 10, Some 3), (''u4'', 30, 20, Some 4)]"
  using sortedParticipants_sorted[of qz] endQuizSession_ranks[of db quizId qz i sessions now]
    participantsArr_sorted[of qs] participantsArr_ranks[of qs]
    rank_example_scheduler rank_example_orchestrator
  by (simp add: sortedParticipants_def mset_js_sort participantsArr_unranked)

theorem rank_ordering_witness:
  "(\<exists>final. fst (snd (endQuizSession (sample_db(''quiz1'' \<mapsto> rank_quiz)) [] 500000 ''quiz1'')) ''quiz1'' = Some final
      \<and> \<not> quiz_isLive final \<and> quiz_isCompleted final
      \<and> find (\<lambda>p. p_id p = ''p2'') (quiz_participants final)
           = Some (ranked_as 500000 0 (scored ''p2'' ''u2'' 80 5)))"
proof -
  have s: "sortedParticipants rank_quiz
     = [scored ''p2'' ''u2'' 80 5, scored ''p3'' ''u3'' 80 8, scored ''p1'' ''u1'' 50 10, scored ''p4'' ''u4'' 30 20]"
    by (simp add: sortedParticipants_def js_sort_def by_score_then_time_def rank_quiz_def scored_def sample_defs)
  have h: "(sample_db(''quiz1'' \<mapsto> rank_quiz)) ''quiz1'' = Some rank_quiz
     \<and> distinct (map p_id (quiz_participants rank_quiz)) \<and> 0 < length (sortedParticipants rank_quiz)"
    unfolding s by (simp add: rank_quiz_def scored_def sample_defs)
  have id: "p_id (sortedParticipants rank_quiz ! 0) = ''p2''"
    unfolding s by (simp add: scored_def sample_defs)
  from rank_ordering[of rank_quiz "sample_db(''quiz1'' \<mapsto> rank_quiz)" "''quiz1''" 0 "[]" 500000 rank_qstate] h
  have "\<exists>final. fst (snd (endQuizSession (sample_db(''quiz1'' \<mapsto> rank_quiz)) [] 500000 ''quiz1'')) ''quiz1'' = Some final
      \<and> \<not> quiz_isLive final \<and> quiz_isCompleted final
      \<and> find (\<lambda>p. p_id p = p_id (sortedParticipants rank_quiz ! 0)) (quiz_participants final)
           = Some (ranked_as 500000 0 (sortedParticipants rank_quiz ! 0))"
    by blast
  then show ?thesis unfolding id unfolding s by simp
qed

subsection \<open>The question index\<close>








lemma startQuizNow_opens_first:
  assumes "db quizId = Some quizDoc" and "map_of orch quizId = None"
    and "quiz_questions quizDoc \<noteq> []"
  shows "\<exists>effects orch' qs'. startQuizNow db orch now quizId = Inr (effects, orch')
           \<and> qs_currentIndex (initial_qstate quizDoc) = -1
           \<and> map_of orch' quizId = Some qs' \<and> qs_currentIndex qs' = 0
           \<and> qs_endHandle qs' = Some 0"
proof -
  obtain q where "js_index (quiz_questions quizDoc) 0 = Some q"
    using assms(3) by (cases "quiz_questions quizDoc") (auto simp: js_index_def)
  then show ?thesis using assms(1,2)
    by (simp add: startQuizNow_def advanceTo_def Let_def map_set_def update_conv' initial_qstate_def)
qed










subsection \<open>Starting a session\<close>

lemma claim_live_once:
  assumes "db quizId = Some qz" and "quiz_isLive qz"
  shows "claim_live db now quizId = (None, db)"
  using assms by (simp add: claim_live_def)

lemma claim_live_sets_live:
  assumes "db quizId = Some qz" and "\<not> quiz_isLive qz"
  shows "claim_live db now quizId = (Some (go_live now qz), db(quizId \<mapsto> go_live now qz))"
    and "claim_live (snd (claim_live db now quizId)) now' quizId = (None, snd (claim_live db now quizId))"
  using assms by (simp_all add: claim_live_def go_live_def)

lemma startQuizDirectly_idempotent:
  assumes "db (quiz_id quiz) = Some qz" and "quiz_isLive qz"
  shows "startQuizDirectly flt now db sessions quiz = ([], db, sessions, None)"
  using assms by (simp add: startQuizDirectly_def claim_live_def)

lemma manualStartQuiz_refuses_live:
  assumes "db quizId = Some qz" and "quiz_isLive qz"
  shows "manualStartQuiz rnd flt now db sessions quizId = Inl ''Quiz already live''"
  using assms by (simp add: manualStartQuiz_def manualStartQuiz_read_def)

lemma first_write_eq:
  "first_write =
     ([Emit (ToRoom ''quiz-quiz1'') ''question''
         (question_payload 0 (go_live 100000 scheduled_quiz) question0 100002)],
      scheduled_db(''quiz1'' \<mapsto> (go_live 100000 scheduled_quiz)\<lparr> quiz_questionStartTime := Some 100002 \<rparr>),
      [(''quiz1'', \<lparr> se_questionIndex = 0, se_questionStartTime = 100002 \<rparr>)],
      Some \<lparr> dr_quizId = ''quiz1'', dr_questionIndex = 0, dr_timer = Some (AdvanceAfter 15000) \<rparr>)"
  by (simp add: first_write_def manualStartQuiz_write_def save_def startQuizSession_def
        emitNextQuestion_def Let_def map_has_def map_set_def js_index_def go_live_def
        scheduled_defs sample_defs)

lemma question_advanced_eq:
  "question_advanced =
     ([Emit (ToRoom ''quiz-quiz1'') ''question''
         (question_payload 1 ((go_live 100000 scheduled_quiz)\<lparr> quiz_questionStartTime := Some 100002 \<rparr>)
            question1 115002)],
      scheduled_db(''quiz1'' \<mapsto> (go_live 100000 scheduled_quiz)\<lparr> quiz_currentQuestionIndex := 1,
                                   quiz_questionStartTime := Some 115002 \<rparr>),
      [(''quiz1'', \<lparr> se_questionIndex = 1, se_questionStartTime = 115002 \<rparr>)],
      \<lparr> dr_quizId = ''quiz1'', dr_questionIndex = 1, dr_timer = Some (AdvanceAfter 15000) \<rparr>)"
  by (simp add: question_advanced_def first_write_eq timer_fires_def emitNextQuestion_def Let_def
        map_set_def js_index_def go_live_def scheduled_defs sample_defs)

lemma second_write_eq:
  "second_write =
     ([],
      scheduled_db(''quiz1'' \<mapsto> go_live 100001 scheduled_quiz),
      [(''quiz1'', \<lparr> se_questionIndex = 1, se_questionStartTime = 115002 \<rparr>)],
      None)"
  by (simp add: second_write_def question_advanced_eq manualStartQuiz_write_def save_def
        startQuizSession_def map_has_def go_live_def scheduled_defs sample_defs)

text \<open>
  Claim C5 fails on the code for the manual path. The automatic path
  (\<open>startQuizDirectly\<close>) goes live by one conditional update and is idempotent, as the
  lemmas above show. \<open>manualStartQuiz\<close> checks \<open>isLive\<close> on the copy it has read and
  later saves that copy unconditionally. With two manual starts that both read the
  scheduled quiz, the first write starts the session; after the session has advanced to
  the second question, the second write puts \<open>currentQuestionIndex\<close> back to 0,
  while the session in memory stays at the second question.
  At that point the automatic path, or a manual start that reads first, is refused.
\<close>

theorem manual_start_resets_running_quiz:
  "manualStartQuiz_read no_random 100000 scheduled_db ''quiz1'' = Inr (go_live 100000 scheduled_quiz)
   \<and> manualStartQuiz_read no_random 100001 scheduled_db ''quiz1'' = Inr (go_live 100001 scheduled_quiz)
   \<and> quiz_isLive (the (fst (snd first_write) ''quiz1''))
   \<and> quiz_currentQuestionIndex (the (fst (snd first_write) ''quiz1'')) = 0
   \<and> quiz_currentQuestionIndex (the (fst (snd question_advanced) ''quiz1'')) = 1
   \<and> quiz_currentQuestionIndex (the (fst (snd second_write) ''quiz1'')) = 0
   \<and> fst (snd (snd second_write)) = [(''quiz1'', \<lparr> se_questionIndex = 1, se_questionStartTime = 115002 \<rparr>)]
   \<and> startQuizDirectly NoFault 115003 (fst (snd question_advanced)) (fst (snd (snd question_advanced)))
        scheduled_quiz
       = ([], fst (snd question_advanced), fst (snd (snd question_advanced)), None)
   \<and> manualStartQuiz no_random NoFault 115003 (fst (snd question_advanced))
        (fst (snd (snd question_advanced))) ''quiz1'' = Inl ''Quiz already live''"
  by (simp add: first_write_eq question_advanced_eq second_write_eq manualStartQuiz_read_def
        manualStartQuiz_def startQuizDirectly_def claim_live_def go_live_def scheduled_defs sample_defs)

lemma startJob_skips_live:
  assumes "db quizId = Some qz" and "quiz_isLive qz"
  shows "startJob rnd flt now db sessions quizId = Inr ([], db, sessions, None)"
  using assms by (simp add: startJob_def)

text \<open>
  Claim C8, as amended. The registry of sessions and the timers of a driver are in
  the memory of the process; after a restart the registry is empty and no timer is
  pending. \<open>initializeQuizScheduler\<close> only registers the scheduled triggers. Whatever
  then asks for a start of a quiz that the store marks live is refused: the scheduled
  start (\<open>startQuizDirectly\<close>, whose conditional update finds no quiz that is not live),
  the \<open>START\<close> job and \<open>manualStartQuiz\<close> all return without calling \<open>startQuizSession\<close>,
  and leave the store and the registry as they are. So the quiz is not resumed:
  neither the stored index nor the stored start instant is read, and no question is
  sent, from the stored index or from 0.
\<close>

theorem live_quiz_is_not_resumed:
  "db quizId = Some qz \<and> quiz_isLive qz \<and> quiz_id quiz = quizId
   \<longrightarrow> startQuizDirectly flt now db sessions quiz = ([], db, sessions, None)
       \<and> startJob rnd flt now db sessions quizId = Inr ([], db, sessions, None)
       \<and> manualStartQuiz rnd flt now db sessions quizId = Inl ''Quiz already live''"
  using startQuizDirectly_idempotent[of db quiz qz flt now sessions]
    startJob_skips_live[of db quizId qz rnd flt now sessions]
    manualStartQuiz_refuses_live[of db quizId qz rnd flt now sessions]
  by blast

text \<open>
  The claim as stated fails. The store below is the one that the running session left
  when the second question of the three-question quiz had been open since 115002:
  the quiz is live, with stored index 1. The process restarts, so the registry is
  empty. At 120000, five seconds into the question, each of the three ways to start
  a session returns without a driver and without sending anything; the record keeps
  its index and start instant, and the registry stays empty.
\<close>

theorem restart_does_not_resume_counterexample:
  "(let db = fst (snd question_advanced); stored = the (db ''quiz1'')
    in quiz_isLive stored \<and> quiz_currentQuestionIndex stored = 1
     \<and> quiz_questionStartTime stored = Some 115002 \<and> quiz_id stored = ''quiz1''
     \<and> startQuizDirectly NoFault 120000 db [] stored = ([], db, [], None)
     \<and> startJob no_random NoFault 120000 db [] ''quiz1'' = Inr ([], db, [], None)
     \<and> manualStartQuiz no_random NoFault 120000 db [] ''quiz1'' = Inl ''Quiz already live'')"
  by (simp add: question_advanced_eq Let_def startQuizDirectly_def claim_live_def startJob_def
        manualStartQuiz_def manualStartQuiz_read_def go_live_def scheduled_defs sample_defs)

theorem live_quiz_is_not_resumed_witness:
  "startQuizDirectly PersistFails 130000 sample_db [] sample_quiz = ([], sample_db, [], None)
   \<and> startJob no_random PersistFails 130000 sample_db [] ''quiz1'' = Inr ([], sample_db, [], None)
   \<and> manualStartQuiz no_random PersistFails 130000 sample_db [] ''quiz1'' = Inl ''Quiz already live''"
proof -
  have "sample_db ''quiz1'' = Some sample_quiz \<and> quiz_isLive sample_quiz \<and> quiz_id sample_quiz = ''quiz1''"
    by (simp add: sample_db_def sample_quiz_def)
  with live_quiz_is_not_resumed[of sample_db "''quiz1''" sample_quiz sample_quiz PersistFails 130000 "[]" no_random]
  show ?thesis by blast
qed

subsection \<open>What the payloads reveal\<close>

lemma json_keys_json_of: "json_keys (json_of v) = {}"
  by (cases v) simp_all

lemma questionForClients_independent:
  "questionForClients idx (q\<lparr> q_correctIndex := c \<rparr>) d = questionForClients idx q d"
  by (simp add: questionForClients_def)

lemma question_payload_independent:
  "question_payload i qz (q\<lparr> q_correctIndex := c \<rparr>) t = question_payload i qz q t"
  by (simp add: question_payload_def)

lemma getTodayQuiz_independent:
  "getTodayQuiz (Some (qz\<lparr> quiz_questions := map (\<lambda>q. q\<lparr> q_correctIndex := f q \<rparr>) (quiz_questions qz) \<rparr>)) uid
     = getTodayQuiz (Some qz) uid"
  by (simp add: getTodayQuiz_def Let_def comp_def)

lemma questionForClients_keys: "''correctIndex'' \<notin> json_keys (questionForClients idx q d)"
  by (simp add: questionForClients_def)

lemma question_payload_keys: "''correctIndex'' \<notin> json_keys (question_payload i qz q t)"
  by (simp add: question_payload_def)

lemma getTodayQuiz_keys: "''correctIndex'' \<notin> json_keys (getTodayQuiz found uid)"
  by (auto simp: getTodayQuiz_def Let_def split: option.splits)

lemma finalizeQuiz_keys:
  "\<forall>e \<in> set (fst (finalizeQuiz orch qid)). \<forall>j \<in> set (emitted e). ''correctIndex'' \<notin> json_keys j"
  by (auto simp: finalizeQuiz_def Let_def ranked_json_def split: option.splits)

lemma advanceTo_keys:
  "\<forall>e \<in> set (fst (advanceTo orch qid now idx)). \<forall>j \<in> set (emitted e). ''correctIndex'' \<notin> json_keys j"
proof (cases "map_of orch qid")
  case None
  then show ?thesis by (simp add: advanceTo_def)
next
  case (Some qs)
  show ?thesis
  proof (cases "js_index (qs_questions qs) idx")
    case None
    then show ?thesis using Some finalizeQuiz_keys
      by (simp add: advanceTo_def Let_def)
  next
    case (Some q)
    then show ?thesis using \<open>map_of orch qid = Some qs\<close>
      by (simp add: advanceTo_def Let_def questionForClients_def time_left_def)
  qed
qed

lemma perSecond_keys:
  "\<forall>e \<in> set (fst (perSecond orch qid)). \<forall>j \<in> set (emitted e). ''correctIndex'' \<notin> json_keys j"
  by (simp add: perSecond_def Let_def time_left_def split: option.splits)

lemma time_left_tick_keys:
  "\<forall>e \<in> set (time_left_tick quizId i start dur now). \<forall>j \<in> set (emitted e). ''correctIndex'' \<notin> json_keys j"
  by (simp add: time_left_tick_def Let_def)

lemma submit_answer_running_keys:
  "\<forall>e \<in> set (fst (submit_answer_running qs now quizId userId qi sel)).
      \<forall>j \<in> set (emitted e). ''correctIndex'' \<notin> json_keys j"
proof (cases "Finite (of_int (qs_currentIndex qs)) \<noteq> js_Number qi
     \<or> map_of (qs_participants qs) userId = None
     \<or> (\<exists>p. map_of (qs_participants qs) userId = Some p \<and> map_has qi (op_answers p))
     \<or> orch_timeTaken qs now > qs_questionDurationSec qs
     \<or> js_index (qs_questions qs) (qs_currentIndex qs) = None")
  case True
  from running_rejected[OF True, of quizId sel] show ?thesis
    by (auto simp: answer_error_def)
next
  case False
  then obtain p q where "Finite (of_int (qs_currentIndex qs)) = js_Number qi"
    "map_of (qs_participants qs) userId = Some p" "\<not> map_has qi (op_answers p)"
    "\<not> orch_timeTaken qs now > qs_questionDurationSec qs"
    "js_index (qs_questions qs) (qs_currentIndex qs) = Some q"
    by auto
  then show ?thesis
    by (simp add: submit_answer_running_def Let_def json_keys_json_of)
qed

lemma submit_answer_keys:
  "\<forall>e \<in> set (fst (submit_answer orch now payload)).
      \<forall>j \<in> set (emitted e). ''correctIndex'' \<notin> json_keys j"
proof -
  have "(\<exists>msg. fst (submit_answer orch now payload) = [answer_error msg])
      \<or> (\<exists>qs qi sel. fst (submit_answer orch now payload)
            = fst (submit_answer_running qs now (ap_quizId payload) (ap_userId payload) qi sel))"
    by (auto simp: submit_answer_def case_prod_unfold Let_def split: option.splits)
  then show ?thesis using submit_answer_running_keys
    by (auto simp: answer_error_def)
qed

lemma endQuizSession_keys:
  "\<forall>e \<in> set (fst (endQuizSession db sessions now quizId)).
      \<forall>j \<in> set (emitted e). ''correctIndex'' \<notin> json_keys j"
  by (auto simp: endQuizSession_def Let_def map_index_def winner_json_def split: option.splits)

lemma emitNextQuestion_keys:
  "\<forall>e \<in> set (fst (emitNextQuestion flt now db sessions dr)).
      \<forall>j \<in> set (emitted e). ''correctIndex'' \<notin> json_keys j"
proof -
  have "fst (emitNextQuestion flt now db sessions dr) = []
      \<or> fst (emitNextQuestion flt now db sessions dr) = fst (endQuizSession db sessions now (dr_quizId dr))
      \<or> (\<exists>i qz q t. fst (emitNextQuestion flt now db sessions dr)
            = [Emit (ToRoom (''quiz-'' @ dr_quizId dr)) ''question'' (question_payload i qz q t)])"
    by (auto simp: emitNextQuestion_def Let_def split: option.splits prod.splits)
  then show ?thesis using endQuizSession_keys[of db sessions now "dr_quizId dr"] question_payload_keys
    by auto
qed

lemma endHandle_reveals:
  assumes "map_of orch qid = Some qs" and "qs_endHandle qs = Some idx"
    and "js_index (qs_questions qs) idx = Some question"
  shows "\<exists>rest. fst (endHandle orch qid) =
     Emit (ToRoom qid) ''question-ended''
       (JObject [(''questionIndex'', JNumber (of_int idx)),
                 (''correctIndex'', JNumber (of_int (q_correctIndex question)))])
     # rest"
  using assms by (simp add: endHandle_def Let_def split: prod.splits)

lemma join_room_v2_keys:
  "\<forall>e \<in> set (join_room_v2 db now socket stored production old payload).
      \<forall>j \<in> set (emitted e). ''correctIndex'' \<notin> json_keys j"
  by (auto simp: join_room_v2_def join_error_def Let_def split: option.splits)

text \<open>
  Claim C7 does not hold of the \<open>join-room\<close> handler of the first version of the socket
  server. A participant who joins while a question is open is sent the event
  \<open>question\<close> with the question subdocument itself (\<open>question: q\<close>), and the
  subdocument has the field \<open>correctIndex\<close>. The other emitters build the question of
  their payload field by field, without \<open>correctIndex\<close>: the second version of the
  same handler, \<open>emitNextQuestion\<close>, \<open>questionForClients\<close> and \<open>getTodayQuiz\<close> (lemmas
  above); the orchestrator sends the index in \<open>question-ended\<close>, when the question
  closes.

  In the store below the quiz is live and its question 0, whose correct index is 1,
  has been open since 100000, for 15 seconds. The paid participant alice joins the
  room at 105000, with 10 seconds left. The first version sends her the question with
  \<open>correctIndex: 1\<close>; the second version, on the same input, sends the question without
  it.
\<close>

theorem join_room_reveals_correct_index:
  "(let stored = the (sample_db ''quiz1'')
    in quiz_isLive stored \<and> quiz_currentQuestionIndex stored = 0
     \<and> quiz_questionStartTime stored = Some 100000 \<and> quiz_timePerQuestion stored = 15
     \<and> js_index (quiz_questions stored) 0 = Some question0 \<and> q_correctIndex question0 = 1)
   \<and> join_room sample_db 105000 alice_socket [] True [] alice_joins =
       [Emit ToSocket ''joined'' (JObject [(''roomId'', JString ''quiz-quiz1'')]),
        Emit (ToOthers ''quiz-quiz1'') ''user-joined''
          (JObject [(''userId'', JString ''alice''), (''username'', JString ''Alice'')]),
        Emit ToSocket ''question'' (JObject
          [(''questionIndex'', JNumber 1), (''totalQuestions'', JNumber 2),
           (''question'', JObject
              [(''_id'', JString ''q0''), (''text'', JString ''2 + 2''),
               (''options'', JArray [JString ''3'', JString ''4'', JString ''5'', JString ''6'']),
               (''correctIndex'', JNumber 1), (''category'', JString ''math''),
               (''difficulty'', JString ''easy''), (''points'', JNumber 10)]),
           (''timeLeft'', JNumber 10000), (''startTime'', JNumber 100000),
           (''duration'', JNumber 15000)])]
   \<and> join_room_v2 sample_db 105000 alice_socket [] True [] alice_joins =
       [Emit ToSocket ''joined'' (JObject [(''roomId'', JString ''quiz-quiz1'')]),
        Emit (ToOthers ''quiz-quiz1'') ''user-joined''
          (JObject [(''userId'', JString ''alice''), (''username'', JString ''Alice'')]),
        Emit ToSocket ''question'' (JObject
          [(''questionIndex'', JNumber 1), (''totalQuestions'', JNumber 2),
           (''question'', JObject
              [(''_id'', JString ''q0''), (''text'', JString ''2 + 2''),
               (''options'', JArray [JString ''3'', JString ''4'', JString ''5'', JString ''6'']),
               (''category'', JString ''math''), (''points'', JNumber 10)]),
           (''timeLeft'', JNumber 10000), (''startTime'', JNumber 100000),
           (''duration'', JNumber 15000)])]"
  by (simp add: join_room_def join_room_v2_def question_document_def js_index_def Let_def
        alice_socket_def alice_joins_def sample_defs)

subsection \<open>Shuffling\<close>

lemma mset_swap': "i < length xs \<Longrightarrow> j < length xs \<Longrightarrow> mset (swap i j xs) = mset xs"
  unfolding swap_def using mset_swap[of j xs i] by simp

lemma length_swap: "length (swap i j xs) = length xs"
  by (simp add: swap_def)

lemma random_index_le:
  assumes "0 \<le> u" and "u < 1"
  shows "random_index u i \<le> i"
proof -
  have "u * real (i + 1) < real (i + 1)"
    using assms by simp
  then have "\<lfloor>u * real (i + 1)\<rfloor> < int (i + 1)"
    by (simp add: floor_less_iff)
  then show ?thesis by (simp add: random_index_def)
qed

lemma fisher_yates_mset:
  assumes "\<forall>k. 0 \<le> rnd k \<and> rnd k < 1"
  shows "i < length xs \<Longrightarrow> mset (fst (fisher_yates rnd k i xs)) = mset xs"
proof (induction i arbitrary: k xs)
  case 0
  then show ?case by simp
next
  case (Suc i)
  have j: "random_index (rnd k) (Suc i) < length xs"
    using random_index_le[of "rnd k" "Suc i"] assms Suc.prems by (simp add: le_less_trans)
  have "mset (swap (Suc i) (random_index (rnd k) (Suc i)) xs) = mset xs"
    using Suc.prems j by (simp add: mset_swap')
  moreover have "i < length (swap (Suc i) (random_index (rnd k) (Suc i)) xs)"
    using Suc.prems by (simp add: length_swap)
  ultimately show ?case using Suc.IH by simp
qed

lemma fisher_yates_mset':
  assumes "\<forall>k. 0 \<le> rnd k \<and> rnd k < 1"
  shows "mset (fst (fisher_yates rnd k (length xs - 1) xs)) = mset xs"
proof (cases xs)
  case Nil
  then show ?thesis by simp
next
  case (Cons x ys)
  then show ?thesis using fisher_yates_mset[OF assms, of "length xs - 1" xs k] by simp
qed

lemma findIndex_found:
  assumes "\<exists>x \<in> set xs. P x"
  shows "0 \<le> findIndex P xs \<and> findIndex P xs < int (length xs) \<and> P (xs ! nat (findIndex P xs))"
  using assms
proof (induction xs)
  case Nil
  then show ?case by simp
next
  case (Cons x xs)
  show ?case
  proof (cases "P x")
    case True
    then show ?thesis by simp
  next
    case False
    then have "\<exists>x \<in> set xs. P x" using Cons.prems by auto
    from Cons.IH[OF this] False show ?thesis
      by (simp add: Let_def nat_add_distrib)
  qed
qed

lemma shuffle_options_shuffled:
  assumes "\<forall>k. 0 \<le> rnd k \<and> rnd k < 1"
  shows "shuffled_from (fst (shuffle_options rnd k q)) q"
proof (cases "q_options q = []")
  case True
  then show ?thesis by (simp add: shuffle_options_def shuffled_from_def)
next
  case False
  let ?so = "fst (fisher_yates rnd k (length (q_options q) - 1) (q_options q))"
  let ?orig = "js_index (q_options q) (q_correctIndex q)"
  have q': "fst (shuffle_options rnd k q)
      = q\<lparr> q_options := ?so, q_correctIndex := findIndex (\<lambda>opt. Some opt = ?orig) ?so \<rparr>"
    using False by (simp add: shuffle_options_def Let_def case_prod_unfold)
  have ms: "mset ?so = mset (q_options q)"
    by (rule fisher_yates_mset'[OF assms])
  have valid: "0 \<le> findIndex (\<lambda>opt. Some opt = ?orig) ?so
      \<and> findIndex (\<lambda>opt. Some opt = ?orig) ?so < int (length ?so)
      \<and> ?so ! nat (findIndex (\<lambda>opt. Some opt = ?orig) ?so) = q_options q ! nat (q_correctIndex q)"
    if v: "0 \<le> q_correctIndex q" "q_correctIndex q < int (length (q_options q))"
  proof -
    have o: "?orig = Some (q_options q ! nat (q_correctIndex q))"
      using v by (simp add: js_index_def)
    have "q_options q ! nat (q_correctIndex q) \<in> set (q_options q)"
      using v by simp
    then have "q_options q ! nat (q_correctIndex q) \<in> set ?so"
      using ms by (metis set_mset_mset)
    then have "\<exists>x \<in> set ?so. Some x = ?orig" using o by auto
    from findIndex_found[OF this] o show ?thesis by auto
  qed
  show ?thesis unfolding q' shuffled_from_def using ms valid by simp
qed

lemma shuffle_each_shuffled:
  assumes "\<forall>k. 0 \<le> rnd k \<and> rnd k < 1"
  shows "list_all2 shuffled_from (fst (shuffle_each rnd k qs)) qs"
proof (induction qs arbitrary: k)
  case Nil
  then show ?case by simp
next
  case (Cons q qs)
  show ?case
    using shuffle_options_shuffled[OF assms, of k q] Cons.IH[of "snd (shuffle_options rnd k q)"]
    by (simp add: case_prod_unfold Let_def)
qed

text \<open>
  Claim C10. For draws of \<open>Math.random()\<close> within its range, \<open>shuffleQuestions\<close> returns
  the questions of its input in some order, each with its options reordered; for a
  question whose \<open>correctIndex\<close> is a valid index into its options, the option text at
  the new \<open>correctIndex\<close> is the option text at the original one.
\<close>

theorem shuffle_keeps_questions_and_answers:
  "(\<forall>k. 0 \<le> rnd k \<and> rnd k < 1) \<longrightarrow>
     (\<exists>ps. mset ps = mset questions \<and> list_all2 shuffled_from (shuffleQuestions rnd questions) ps)"
proof
  assume r: "\<forall>k. 0 \<le> rnd k \<and> rnd k < 1"
  show "\<exists>ps. mset ps = mset questions \<and> list_all2 shuffled_from (shuffleQuestions rnd questions) ps"
  proof (cases "questions = []")
    case True
    then show ?thesis by (simp add: shuffleQuestions_def)
  next
    case False
    let ?fy = "fisher_yates rnd 0 (length questions - 1) questions"
    have "shuffleQuestions rnd questions = fst (shuffle_each rnd (snd ?fy) (fst ?fy))"
      using False by (simp add: shuffleQuestions_def case_prod_unfold Let_def)
    moreover have "mset (fst ?fy) = mset questions"
      by (rule fisher_yates_mset'[OF r])
    ultimately show ?thesis
      using shuffle_each_shuffled[OF r, of "snd ?fy" "fst ?fy"] by auto
  qed
qed

theorem shuffle_keeps_questions_and_answers_witness:
  "(\<exists>ps. mset ps = mset [question0, question1]
        \<and> list_all2 shuffled_from (shuffleQuestions no_random [question0, question1]) ps)
   \<and> shuffleQuestions no_random [question0, question1] =
        [question1\<lparr> q_options := [''b'', ''c'', ''d'', ''a''], q_correctIndex := 1 \<rparr>,
         question0\<lparr> q_options := [''4'', ''5'', ''6'', ''3''], q_correctIndex := 0 \<rparr>]"
proof -
  have h: "\<forall>k. 0 \<le> no_random k \<and> no_random k < 1"
    by (simp add: no_random_def)
  have e: "shuffleQuestions no_random [question0, question1] =
        [question1\<lparr> q_options := [''b'', ''c'', ''d'', ''a''], q_correctIndex := 1 \<rparr>,
         question0\<lparr> q_options := [''4'', ''5'', ''6'', ''3''], q_correctIndex := 0 \<rparr>]"
    by (simp add: shuffleQuestions_def shuffle_options_def no_random_def random_index_def swap_def
          js_index_def question0_def question1_def Let_def eval_nat_numeral)
  from shuffle_keeps_questions_and_answers[of no_random "[question0, question1]"] h e
  show ?thesis by blast
qed

end
